theory Spec2Isabelle
  imports
    Complex_Main
    "HOL-Library.Char_ord"
    "HOL-Library.List_Lexorder"
    "HOL-Library.Product_Lexorder"
begin

section \<open>Forecast accuracy reports: reconciliation, rollups and metrics\<close>

text \<open>
  A shallow embedding of the reconciliation pipeline of
  \<^verbatim>\<open>build_forecast_accuracy_report.py\<close> (\<^verbatim>\<open>build_raw_data\<close> and the dashboard
  builders), of the trend aggregation of \<^verbatim>\<open>build_forecast_accuracy_trend_report_db.py\<close>
  and of the control flow of the two \<^verbatim>\<open>main\<close> functions that enforce the
  data-quality checks.

  Conventions of the model:
  \<^item> a data frame is the list of its rows, a row is a record of its columns;
  \<^item> a text column of a table holds \<open>cell\<close>s: a string or the missing value NaN
    (what \<^verbatim>\<open>read_excel\<close> yields for an empty cell); \<^verbatim>\<open>astype(str)\<close> and
    \<^verbatim>\<open>normalize_key\<close> are defined on every value, and render NaN as \<^verbatim>\<open>nan\<close> and
    \<^verbatim>\<open>None\<close> as \<^verbatim>\<open>None\<close>;
  \<^item> a numeric column holds \<open>real option\<close>: \<open>None\<close> is NaN (or a value that
    \<^verbatim>\<open>to_numeric(errors="coerce")\<close> turns into NaN); floating-point numbers are
    read as the reals they denote;
  \<^item> strings are ASCII: \<^verbatim>\<open>upper\<close>, \<^verbatim>\<open>lower\<close> and \<^verbatim>\<open>strip\<close> act on the ASCII letters
    and the ASCII white space, other characters are left alone.
\<close>

subsection \<open>Strings and cells\<close>

definition is_space :: "char \<Rightarrow> bool" where
  "is_space c \<longleftrightarrow>
     (let n = (of_char c :: nat) in (9 \<le> n \<and> n \<le> 13) \<or> (28 \<le> n \<and> n \<le> 32))"

definition upper_char :: "char \<Rightarrow> char" where
  "upper_char c =
     (let n = (of_char c :: nat) in if 97 \<le> n \<and> n \<le> 122 then char_of (n - 32) else c)"

definition lower_char :: "char \<Rightarrow> char" where
  "lower_char c =
     (let n = (of_char c :: nat) in if 65 \<le> n \<and> n \<le> 90 then char_of (n + 32) else c)"

definition upper :: "string \<Rightarrow> string" where
  "upper s = map upper_char s"

definition lower :: "string \<Rightarrow> string" where
  "lower s = map lower_char s"

definition strip :: "string \<Rightarrow> string" where
  "strip s = rev (dropWhile is_space (rev (dropWhile is_space s)))"

datatype cell = Str string | NaN

text \<open>
  Any value a column can hold when it is normalized: a cell of a text column, Python's
  \<^verbatim>\<open>None\<close> (what \<^verbatim>\<open>read_sql\<close> yields for a SQL NULL in a text column), or any other
  object (a number, a date), given by the text \<^verbatim>\<open>str\<close> returns for it.
\<close>

datatype pyvalue = Cell cell | PyNone | Other string

text \<open>\<^verbatim>\<open>astype(str)\<close> on one value.\<close>

fun astype_str :: "pyvalue \<Rightarrow> string" where
  "astype_str (Cell (Str s)) = s"
| "astype_str (Cell NaN) = ''nan''"
| "astype_str PyNone = ''None''"
| "astype_str (Other s) = s"

text \<open>
  \<^verbatim>\<open>normalize_key\<close>: \<^verbatim>\<open>series.astype(str).str.strip().str.upper()\<close>, element by element.
\<close>

definition normalize_key :: "pyvalue \<Rightarrow> string" where
  "normalize_key c = upper (strip (astype_str c))"

subsection \<open>The source tables\<close>

record timestamp =
  year :: int
  month :: nat
  day :: nat

text \<open>\<^verbatim>\<open>.dt.to_period("M")\<close>: the calendar month of a timestamp.\<close>

definition to_period_M :: "timestamp \<Rightarrow> int \<times> nat" where
  "to_period_M t = (year t, month t)"

text \<open>
  A comparison of a period column with the report month; a missing timestamp (NaT)
  compares false.
\<close>

definition in_month :: "timestamp option \<Rightarrow> timestamp \<Rightarrow> bool" where
  "in_month d month_start =
     (case d of None \<Rightarrow> False | Some t \<Rightarrow> to_period_M t = to_period_M month_start)"

record marketing_row =
  mk_BU :: cell
  mk_Location :: cell
  mk_Geography :: cell
  mk_Product :: cell
  mk_Date :: "timestamp option"
  mk_Forecast_Dollars :: "real option"
  mk_Forecast_Quantity :: "real option"

record catalog_row =
  group_key :: cell
  business_unit_code :: cell
  business_unit_name :: cell
  sku_list :: cell
  product_family :: cell
  marketing_manager :: cell
  salesforce_feature_mode :: cell

record stats_row =
  product_id :: cell
  bu_id :: cell
  forecast_month :: "timestamp option"
  model_type :: cell
  forecast_value :: "real option"
  recommended_model :: "bool option"

record actuals_row =
  act_Product :: cell
  act_Division :: cell
  act_Month :: "timestamp option"
  act_Actuals :: "real option"

subsection \<open>Catalog expansion\<close>

text \<open>
  \<^verbatim>\<open>str.split("|")\<close>: the pieces between the pipes, the characters of the current
  piece accumulated in reverse.
\<close>

fun split_acc :: "string \<Rightarrow> string \<Rightarrow> string list" where
  "split_acc acc [] = [rev acc]"
| "split_acc acc (c # cs) =
     (if c = CHR ''|'' then rev acc # split_acc [] cs else split_acc (c # acc) cs)"

definition split_pipe :: "string \<Rightarrow> string list" where
  "split_pipe s = split_acc [] s"

text \<open>A row of \<^verbatim>\<open>catalog_map\<close>: the catalog entry and one code of its exploded list.\<close>

record catalog_map_row =
  entry :: catalog_row
  sku :: string

text \<open>
  \<^verbatim>\<open>astype(str).str.split("|")\<close>, \<^verbatim>\<open>explode\<close>, \<^verbatim>\<open>astype(str).str.strip()\<close> for one
  catalog entry, then for the catalog.
\<close>

definition explode_entry :: "catalog_row \<Rightarrow> catalog_map_row list" where
  "explode_entry e =
     map (\<lambda>t. \<lparr>entry = e, sku = strip t\<rparr>) (split_pipe (astype_str (Cell (sku_list e))))"

definition catalog_expand :: "catalog_row list \<Rightarrow> catalog_map_row list" where
  "catalog_expand catalog_df = concat (map explode_entry catalog_df)"


subsection \<open>Ratios\<close>

text \<open>\<^verbatim>\<open>safe_ratio\<close> of the monthly report: \<open>None\<close> for a zero denominator.\<close>

definition safe_ratio :: "real \<Rightarrow> real \<Rightarrow> real option" where
  "safe_ratio numerator denominator =
     (if denominator = 0 then None else Some (numerator / denominator))"

subsection \<open>Frame operations\<close>

text \<open>\<^verbatim>\<open>fillna(0)\<close> on one numeric value (after \<^verbatim>\<open>to_numeric(errors="coerce")\<close>).\<close>

definition fillna0 :: "real option \<Rightarrow> real" where
  "fillna0 v = (case v of None \<Rightarrow> 0 | Some x \<Rightarrow> x)"

text \<open>The \<^verbatim>\<open>sum\<close> of a numeric column: NaN entries are skipped.\<close>

fun sum_skipna :: "real option list \<Rightarrow> real" where
  "sum_skipna [] = 0"
| "sum_skipna (None # vs) = sum_skipna vs"
| "sum_skipna (Some v # vs) = v + sum_skipna vs"


text \<open>
  The sort position of a text key: strings in code-point order, NaN after every string
  (\<^verbatim>\<open>dropna=False\<close>, \<^verbatim>\<open>na_position="last"\<close>).
\<close>

fun cell_ord :: "cell \<Rightarrow> bool \<times> string" where
  "cell_ord (Str s) = (False, s)"
| "cell_ord NaN = (True, [])"

text \<open>
  \<^verbatim>\<open>groupby(keys, dropna=False)\<close>: one group per distinct key, the groups in ascending
  key order, the rows of a group in frame order.
\<close>

definition groupby :: "('r \<Rightarrow> 'k) \<Rightarrow> ('k \<Rightarrow> 'o::linorder) \<Rightarrow> 'r list \<Rightarrow> ('k \<times> 'r list) list" where
  "groupby key ord rows =
     map (\<lambda>k. (k, filter (\<lambda>r. key r = k) rows)) (sort_key ord (remdups (map key rows)))"

subsection \<open>The reconciliation join of \<^verbatim>\<open>build_raw_data\<close>\<close>

definition marketing_filter :: "marketing_row list \<Rightarrow> timestamp \<Rightarrow> marketing_row list" where
  "marketing_filter marketing_df month_start =
     filter (\<lambda>r. upper (astype_str (Cell (mk_Geography r))) = ''AMERICAS'')
       (filter (\<lambda>r. in_month (mk_Date r) month_start) marketing_df)"

definition mk_product_key :: "marketing_row \<Rightarrow> string" where
  "mk_product_key m = normalize_key (Cell (mk_Product m))"

definition mk_bu_key :: "marketing_row \<Rightarrow> string" where
  "mk_bu_key m = normalize_key (Cell (mk_BU m))"

definition cm_product_key :: "catalog_map_row \<Rightarrow> string" where
  "cm_product_key c = normalize_key (Cell (Str (sku c)))"

definition cm_bu_key :: "catalog_map_row \<Rightarrow> string" where
  "cm_bu_key c = normalize_key (Cell (business_unit_code (entry c)))"

text \<open>A row of \<^verbatim>\<open>merged\<close>: a marketing row and a row of \<^verbatim>\<open>catalog_map\<close> with the same keys.\<close>

record merged_row =
  mrow :: marketing_row
  crow :: catalog_map_row

definition keys_match :: "marketing_row \<Rightarrow> catalog_map_row \<Rightarrow> bool" where
  "keys_match m c \<longleftrightarrow> cm_product_key c = mk_product_key m \<and> cm_bu_key c = mk_bu_key m"

text \<open>
  \<^verbatim>\<open>marketing_df.merge(catalog_map, on=["_product_key", "_bu_key"], how="inner")\<close>: for
  every marketing row, in order, its matches in catalog order.
\<close>

definition merge_inner :: "marketing_row list \<Rightarrow> catalog_map_row list \<Rightarrow> merged_row list" where
  "merge_inner marketing_df catalog_map =
     concat (map (\<lambda>m. map (\<lambda>c. \<lparr>mrow = m, crow = c\<rparr>) (filter (keys_match m) catalog_map))
       marketing_df)"

definition casework_location_map :: "string \<rightharpoonup> string" where
  "casework_location_map =
     [''LOC1020'' \<mapsto> ''ARTISAN CASEWORK'', ''LOC1080'' \<mapsto> ''SYNTHESIS CASEWORK'']"

definition location_key :: "merged_row \<Rightarrow> string" where
  "location_key r = normalize_key (Cell (mk_Location (mrow r)))"

definition group_key_norm :: "merged_row \<Rightarrow> string" where
  "group_key_norm r = normalize_key (Cell (group_key (entry (crow r))))"

definition casework_mask :: "merged_row \<Rightarrow> bool" where
  "casework_mask r \<longleftrightarrow>
     mk_bu_key (mrow r) = ''D200''
     \<and> mk_product_key (mrow r) = ''TOTAL CASEWORK''
     \<and> casework_location_map (location_key r) \<noteq> None"

text \<open>
  The casework split. \<^verbatim>\<open>mapped_group\<close> is NaN for a location outside the map, and a
  comparison with NaN is false.
\<close>

definition casework_filter :: "merged_row list \<Rightarrow> merged_row list" where
  "casework_filter merged =
     (if list_ex casework_mask merged
      then filter (\<lambda>r. \<not> casework_mask r
                        \<or> Some (group_key_norm r) = casework_location_map (location_key r)) merged
      else merged)"

text \<open>The left anti-join: marketing rows with no catalog match.\<close>

definition skipped_rows :: "marketing_row list \<Rightarrow> catalog_map_row list \<Rightarrow> marketing_row list" where
  "skipped_rows marketing_df catalog_map =
     filter (\<lambda>m. \<not> list_ex (keys_match m) catalog_map) marketing_df"

definition skipped_out :: "marketing_row list \<Rightarrow> marketing_row list" where
  "skipped_out skipped = sort_key (\<lambda>m. (cell_ord (mk_BU m), cell_ord (mk_Product m))) skipped"

definition Units :: "merged_row \<Rightarrow> string" where
  "Units r = strip (lower (astype_str (Cell (salesforce_feature_mode (entry (crow r))))))"

definition Marketing_Fcast_of :: "merged_row \<Rightarrow> real" where
  "Marketing_Fcast_of r =
     fillna0 (if Units r = ''quantity'' then mk_Forecast_Quantity (mrow r)
              else mk_Forecast_Dollars (mrow r))"

text \<open>The joined and filtered frame \<^verbatim>\<open>merged\<close>.\<close>

definition build_merged ::
  "marketing_row list \<Rightarrow> catalog_row list \<Rightarrow> timestamp \<Rightarrow> merged_row list" where
  "build_merged marketing_df catalog_df month_start =
     casework_filter
       (merge_inner (marketing_filter marketing_df month_start) (catalog_expand catalog_df))"

subsection \<open>The rollups of \<^verbatim>\<open>build_raw_data\<close>\<close>

type_synonym agg_key = "cell \<times> cell \<times> cell \<times> cell \<times> cell \<times> string"

definition agg_key_of :: "merged_row \<Rightarrow> agg_key" where
  "agg_key_of r =
     (let e = entry (crow r)
      in (group_key e, business_unit_code e, business_unit_name e, product_family e,
          marketing_manager e, Units r))"

definition agg_key_ord ::
  "agg_key \<Rightarrow> (bool \<times> string) \<times> (bool \<times> string) \<times> (bool \<times> string) \<times> (bool \<times> string)
     \<times> (bool \<times> string) \<times> string" where
  "agg_key_ord k =
     (case k of (g, c, n, f, m, u) \<Rightarrow>
        (cell_ord g, cell_ord c, cell_ord n, cell_ord f, cell_ord m, u))"

text \<open>The marketing rollup: \<^verbatim>\<open>Marketing_Fcast\<close> summed per group.\<close>

definition marketing_rollup :: "merged_row list \<Rightarrow> (agg_key \<times> real) list" where
  "marketing_rollup merged =
     map (\<lambda>(k, g). (k, sum_list (map Marketing_Fcast_of g))) (groupby agg_key_of agg_key_ord merged)"

definition act_key :: "actuals_row \<Rightarrow> string \<times> string" where
  "act_key r = (normalize_key (Cell (act_Product r)), normalize_key (Cell (act_Division r)))"

definition actuals_rollup :: "actuals_row list \<Rightarrow> timestamp \<Rightarrow> ((string \<times> string) \<times> real) list" where
  "actuals_rollup actuals_df month_start =
     map (\<lambda>(k, g). (k, sum_skipna (map act_Actuals g)))
       (groupby act_key (\<lambda>k. k) (filter (\<lambda>r. in_month (act_Month r) month_start) actuals_df))"

definition stats_key :: "stats_row \<Rightarrow> string \<times> string" where
  "stats_key r = (normalize_key (Cell (product_id r)), normalize_key (Cell (bu_id r)))"

text \<open>\<^verbatim>\<open>model_type.astype(str).str.upper().str.strip()\<close>.\<close>

definition model_type_norm :: "stats_row \<Rightarrow> string" where
  "model_type_norm r = strip (upper (astype_str (Cell (model_type r))))"

definition stats_month :: "stats_row list \<Rightarrow> timestamp \<Rightarrow> stats_row list" where
  "stats_month stats_df month_start = filter (\<lambda>r. in_month (forecast_month r) month_start) stats_df"

definition stats_blend :: "stats_row list \<Rightarrow> stats_row list" where
  "stats_blend stats = filter (\<lambda>r. model_type_norm r = ''BLEND'') stats"

definition stats_fallback :: "stats_row list \<Rightarrow> stats_row list" where
  "stats_fallback stats = filter (\<lambda>r. recommended_model r = Some True) stats"

definition stats_sum :: "stats_row list \<Rightarrow> ((string \<times> string) \<times> real) list" where
  "stats_sum rows =
     map (\<lambda>(k, g). (k, sum_skipna (map forecast_value g))) (groupby stats_key (\<lambda>k. k) rows)"

text \<open>
  The outer merge of the two rollups (keys of either side, in ascending order) and the
  coalesce \<^verbatim>\<open>forecast_value_blend.where(notna, forecast_value_fallback)\<close>.
\<close>

definition stats_rollup :: "stats_row list \<Rightarrow> timestamp \<Rightarrow> ((string \<times> string) \<times> real option) list" where
  "stats_rollup stats_df month_start =
     (let stats = stats_month stats_df month_start;
          stats_rollup_blend = stats_sum (stats_blend stats);
          stats_rollup_fallback = stats_sum (stats_fallback stats)
      in map (\<lambda>k. (k, (case map_of stats_rollup_blend k of
                          Some v \<Rightarrow> Some v
                        | None \<Rightarrow> map_of stats_rollup_fallback k)))
           (sort (remdups (map fst stats_rollup_blend @ map fst stats_rollup_fallback))))"

text \<open>
  \<^verbatim>\<open>agg\<close> after the two left joins: the marketing rollup with the matched actuals and
  statistical forecast, NaN (\<open>None\<close>) where a rollup has no row for the key.
\<close>

record agg_row =
  agg_key :: agg_key
  agg_Marketing_Fcast :: real
  agg_Actuals :: "real option"
  agg_forecast_value :: "real option"

definition agg_join_key :: "agg_key \<Rightarrow> string \<times> string" where
  "agg_join_key k = (case k of (g, c, n, f, m, u) \<Rightarrow> (normalize_key (Cell g), normalize_key (Cell c)))"

definition left_join ::
  "(agg_key \<times> real) list \<Rightarrow> ((string \<times> string) \<times> real) list
     \<Rightarrow> ((string \<times> string) \<times> real option) list \<Rightarrow> agg_row list" where
  "left_join agg actuals stats =
     map (\<lambda>(k, f).
        \<lparr>agg_key = k, agg_Marketing_Fcast = f,
         agg_Actuals = map_of actuals (agg_join_key k),
         agg_forecast_value = (case map_of stats (agg_join_key k) of None \<Rightarrow> None | Some v \<Rightarrow> v)\<rparr>)
       agg"

text \<open>A reconciled record, one row of \<^verbatim>\<open>raw\<close>.\<close>

record raw_row =
  Product :: cell
  Division :: cell
  Month :: timestamp
  sku_col :: string
  Prod_Fam :: cell
  raw_Units :: string
  Actuals :: real
  Stats_Model_Fcast :: real
  Marketing_Fcast :: real
  Stats_Abs_Error :: real
  Marketing_Abs_Error :: real
  BU_Name :: cell
  Marketing_Manager :: cell

definition raw_of_agg :: "timestamp \<Rightarrow> agg_row \<Rightarrow> raw_row" where
  "raw_of_agg month_start a =
     (case agg_key a of (g, c, n, f, m, u) \<Rightarrow>
        (let stats_fcast = fillna0 (agg_forecast_value a);
             mkt_fcast = agg_Marketing_Fcast a;
             actuals = fillna0 (agg_Actuals a)
         in \<lparr>Product = g, Division = c, Month = month_start, sku_col = [],
             Prod_Fam = f, raw_Units = u, Actuals = actuals,
             Stats_Model_Fcast = stats_fcast, Marketing_Fcast = mkt_fcast,
             Stats_Abs_Error = \<bar>actuals - stats_fcast\<bar>,
             Marketing_Abs_Error = \<bar>actuals - mkt_fcast\<bar>,
             BU_Name = n, Marketing_Manager = m\<rparr>))"

definition build_agg ::
  "marketing_row list \<Rightarrow> catalog_row list \<Rightarrow> stats_row list \<Rightarrow> actuals_row list \<Rightarrow> timestamp
     \<Rightarrow> agg_row list" where
  "build_agg marketing_df catalog_df stats_df actuals_df month_start =
     left_join (marketing_rollup (build_merged marketing_df catalog_df month_start))
       (actuals_rollup actuals_df month_start) (stats_rollup stats_df month_start)"

text \<open>The first component of the result of \<^verbatim>\<open>build_raw_data\<close>.\<close>

definition build_raw_data ::
  "marketing_row list \<Rightarrow> catalog_row list \<Rightarrow> stats_row list \<Rightarrow> actuals_row list \<Rightarrow> timestamp
     \<Rightarrow> raw_row list" where
  "build_raw_data marketing_df catalog_df stats_df actuals_df month_start =
     map (raw_of_agg month_start)
       (build_agg marketing_df catalog_df stats_df actuals_df month_start)"

subsection \<open>The casework rule in the words of the specification\<close>

text \<open>
  The catalog rows a marketing row is joined to, as the specification describes them:
  the rows with the same product and business-unit keys, restricted to the family of
  the location for a total-casework row of division D200 at one of the two locations.
\<close>

definition spec_matches :: "marketing_row \<Rightarrow> catalog_map_row list \<Rightarrow> catalog_map_row list" where
  "spec_matches m catalog_map =
     (if mk_bu_key m = ''D200'' \<and> mk_product_key m = ''TOTAL CASEWORK''
         \<and> normalize_key (Cell (mk_Location m)) = ''LOC1020''
      then filter (\<lambda>c. keys_match m c
                        \<and> normalize_key (Cell (group_key (entry c))) = ''ARTISAN CASEWORK'') catalog_map
      else if mk_bu_key m = ''D200'' \<and> mk_product_key m = ''TOTAL CASEWORK''
         \<and> normalize_key (Cell (mk_Location m)) = ''LOC1080''
      then filter (\<lambda>c. keys_match m c
                        \<and> normalize_key (Cell (group_key (entry c))) = ''SYNTHESIS CASEWORK'') catalog_map
      else filter (keys_match m) catalog_map)"

subsection \<open>Concrete tables\<close>

definition march_2024 :: timestamp where
  "march_2024 = \<lparr>year = 2024, month = 3, day = 1\<rparr>"

text \<open>A catalog entry with the given group key, business unit and code list.\<close>

definition catalog_entry :: "cell \<Rightarrow> cell \<Rightarrow> cell \<Rightarrow> catalog_row" where
  "catalog_entry g bu skus =
     \<lparr>group_key = g, business_unit_code = bu, business_unit_name = Str ''Medical'',
      sku_list = skus, product_family = Str ''Family'', marketing_manager = Str ''Manager'',
      salesforce_feature_mode = Str ''Quantity''\<rparr>"

text \<open>A marketing row for March 2024, geography Americas, 100 units and 5000 dollars.\<close>

definition marketing_entry :: "cell \<Rightarrow> cell \<Rightarrow> cell \<Rightarrow> marketing_row" where
  "marketing_entry bu loc p =
     \<lparr>mk_BU = bu, mk_Location = loc, mk_Geography = Str ''Americas'', mk_Product = p,
      mk_Date = Some march_2024, mk_Forecast_Dollars = Some 5000,
      mk_Forecast_Quantity = Some 100\<rparr>"

definition casework_catalog :: "catalog_row list" where
  "casework_catalog =
     [catalog_entry (Str ''Artisan Casework'') (Str ''D200'') (Str ''Total Casework''),
      catalog_entry (Str ''Synthesis Casework'') (Str ''D200'') (Str ''Total Casework''),
      catalog_entry (Str ''Other Casework'') (Str ''D200'') (Str ''Total Casework | Carts'')]"

subsection \<open>The dashboard builders\<close>

text \<open>
  A dashboard record. The five dashboards have different key columns; a column a
  dashboard does not have is \<open>None\<close> here. The accuracy ratio is the metric
  \<^verbatim>\<open>Midmark Fcast Acc.\<close>.
\<close>

record dash_record =
  dr_Units :: string
  dr_Scope :: "string option"
  dr_BU_Code :: cell
  dr_BU_Name :: cell
  dr_Prod_Fam :: "cell option"
  dr_Marketing_Manager :: "cell option"
  dr_Product :: "cell option"
  dr_Metric :: string
  dr_Stats_Model :: "real option"
  dr_Marketing :: "real option"

definition acc_record ::
  "string \<Rightarrow> string option \<Rightarrow> cell \<Rightarrow> cell \<Rightarrow> cell option \<Rightarrow> cell option \<Rightarrow> cell option
     \<Rightarrow> raw_row list \<Rightarrow> dash_record" where
  "acc_record units scope bu_code bu_name prod_fam manager product grp =
     (let actuals_sum = sum_list (map Actuals grp);
          stats_sum = sum_list (map Stats_Model_Fcast grp);
          mkt_sum = sum_list (map Marketing_Fcast grp);
          stats_acc = safe_ratio stats_sum actuals_sum;
          mkt_acc = safe_ratio mkt_sum actuals_sum
      in \<lparr>dr_Units = units, dr_Scope = scope, dr_BU_Code = bu_code, dr_BU_Name = bu_name,
          dr_Prod_Fam = prod_fam, dr_Marketing_Manager = manager, dr_Product = product,
          dr_Metric = ''Midmark Fcast Acc.'', dr_Stats_Model = stats_acc,
          dr_Marketing = mkt_acc\<rparr>)"

definition wape_record ::
  "string \<Rightarrow> string option \<Rightarrow> cell \<Rightarrow> cell \<Rightarrow> cell option \<Rightarrow> cell option \<Rightarrow> cell option
     \<Rightarrow> raw_row list \<Rightarrow> dash_record" where
  "wape_record units scope bu_code bu_name prod_fam manager product grp =
     (let actuals_sum = sum_list (map Actuals grp);
          stats_abs = sum_list (map Stats_Abs_Error grp);
          mkt_abs = sum_list (map Marketing_Abs_Error grp);
          stats_wape = safe_ratio stats_abs actuals_sum;
          mkt_wape = safe_ratio mkt_abs actuals_sum
      in \<lparr>dr_Units = units, dr_Scope = scope, dr_BU_Code = bu_code, dr_BU_Name = bu_name,
          dr_Prod_Fam = prod_fam, dr_Marketing_Manager = manager, dr_Product = product,
          dr_Metric = ''WAPE'', dr_Stats_Model = stats_wape, dr_Marketing = mkt_wape\<rparr>)"

text \<open>
  The loop \<^verbatim>\<open>for units in ["quantity", "dollars"]\<close> with its \<^verbatim>\<open>continue\<close> on an empty
  \<^verbatim>\<open>unit_df\<close>, common to the builders.
\<close>

definition for_units :: "raw_row list \<Rightarrow> (string \<Rightarrow> raw_row list \<Rightarrow> 'a list) \<Rightarrow> 'a list" where
  "for_units raw body =
     concat (map (\<lambda>units.
        (let unit_df = filter (\<lambda>r. raw_Units r = units) raw
         in if unit_df = [] then [] else body units unit_df))
       [''quantity'', ''dollars''])"

definition ord2 :: "cell \<times> cell \<Rightarrow> (bool \<times> string) \<times> (bool \<times> string)" where
  "ord2 k = (case k of (a, b) \<Rightarrow> (cell_ord a, cell_ord b))"

definition ord3 :: "cell \<times> cell \<times> cell \<Rightarrow> (bool \<times> string) \<times> (bool \<times> string) \<times> (bool \<times> string)" where
  "ord3 k = (case k of (a, b, c) \<Rightarrow> (cell_ord a, cell_ord b, cell_ord c))"

definition ord4 ::
  "cell \<times> cell \<times> cell \<times> cell
     \<Rightarrow> (bool \<times> string) \<times> (bool \<times> string) \<times> (bool \<times> string) \<times> (bool \<times> string)" where
  "ord4 k = (case k of (a, b, c, d) \<Rightarrow> (cell_ord a, cell_ord b, cell_ord c, cell_ord d))"

definition build_totals_dashboard :: "raw_row list \<Rightarrow> dash_record list" where
  "build_totals_dashboard raw =
     for_units raw (\<lambda>units unit_df.
       concat (map (\<lambda>((bu_code, bu_name), grp).
           [acc_record units (Some ''BU'') bu_code bu_name None None None grp,
            wape_record units (Some ''BU'') bu_code bu_name None None None grp])
         (groupby (\<lambda>r. (Division r, BU_Name r)) ord2 unit_df))
       @ [acc_record units (Some ''Total'') (Str ''ALL'') (Str ''Total'') None None None unit_df,
          wape_record units (Some ''Total'') (Str ''ALL'') (Str ''Total'') None None None unit_df])"

definition build_prod_fam_dashboard :: "raw_row list \<Rightarrow> dash_record list" where
  "build_prod_fam_dashboard raw =
     for_units raw (\<lambda>units unit_df.
       map (\<lambda>((bu_code, bu_name, prod_fam), grp).
           acc_record units None bu_code bu_name (Some prod_fam) None None grp)
         (groupby (\<lambda>r. (Division r, BU_Name r, Prod_Fam r)) ord3 unit_df))"

definition build_prod_fam_wape_dashboard :: "raw_row list \<Rightarrow> dash_record list" where
  "build_prod_fam_wape_dashboard raw =
     for_units raw (\<lambda>units unit_df.
       map (\<lambda>((bu_code, bu_name, prod_fam), grp).
           wape_record units None bu_code bu_name (Some prod_fam) None None grp)
         (groupby (\<lambda>r. (Division r, BU_Name r, Prod_Fam r)) ord3 unit_df))"

definition build_marketing_manager_dashboard :: "raw_row list \<Rightarrow> dash_record list" where
  "build_marketing_manager_dashboard raw =
     for_units raw (\<lambda>units unit_df.
       concat (map (\<lambda>((bu_code, bu_name, manager), grp).
           [acc_record units None bu_code bu_name None (Some manager) None grp,
            wape_record units None bu_code bu_name None (Some manager) None grp])
         (groupby (\<lambda>r. (Division r, BU_Name r, Marketing_Manager r)) ord3 unit_df)))"

definition build_product_dashboard :: "raw_row list \<Rightarrow> dash_record list" where
  "build_product_dashboard raw =
     for_units raw (\<lambda>units unit_df.
       map (\<lambda>((bu_code, bu_name, product, manager), grp).
           acc_record units None bu_code bu_name None (Some manager) (Some product) grp)
         (groupby (\<lambda>r. (Division r, BU_Name r, Product r, Marketing_Manager r)) ord4 unit_df))"

subsection \<open>The metrics in the words of the specification\<close>

text \<open>The reconciled records a dashboard record aggregates: its grain.\<close>

definition in_grain :: "dash_record \<Rightarrow> raw_row \<Rightarrow> bool" where
  "in_grain d r \<longleftrightarrow>
     raw_Units r = dr_Units d
     \<and> (dr_Scope d = Some ''Total''
        \<or> (Division r = dr_BU_Code d \<and> BU_Name r = dr_BU_Name d
           \<and> (case dr_Prod_Fam d of None \<Rightarrow> True | Some f \<Rightarrow> Prod_Fam r = f)
           \<and> (case dr_Marketing_Manager d of None \<Rightarrow> True | Some m \<Rightarrow> Marketing_Manager r = m)
           \<and> (case dr_Product d of None \<Rightarrow> True | Some p \<Rightarrow> Product r = p)))"

text \<open>
  The metric of the specification for actuals sum \<open>A\<close> and numerator sum \<open>X\<close>: null
  for \<open>A = 0\<close>, the quotient otherwise.
\<close>

definition spec_metric :: "real \<Rightarrow> real \<Rightarrow> real option" where
  "spec_metric X A = (if A = 0 then None else Some (X / A))"

definition spec_record_ok :: "raw_row list \<Rightarrow> dash_record \<Rightarrow> bool" where
  "spec_record_ok raw d \<longleftrightarrow>
     (let grain = filter (in_grain d) raw;
          A = sum_list (map Actuals grain)
      in if dr_Metric d = ''WAPE''
         then dr_Stats_Model d = spec_metric (sum_list (map Stats_Abs_Error grain)) A
            \<and> dr_Marketing d = spec_metric (sum_list (map Marketing_Abs_Error grain)) A
         else dr_Metric d = ''Midmark Fcast Acc.''
            \<and> dr_Stats_Model d = spec_metric (sum_list (map Stats_Model_Fcast grain)) A
            \<and> dr_Marketing d = spec_metric (sum_list (map Marketing_Fcast grain)) A)"

subsection \<open>The trend rows\<close>

text \<open>\<^verbatim>\<open>safe_ratio\<close> of the trend report.\<close>

definition trend_safe_ratio :: "real \<Rightarrow> real \<Rightarrow> real option" where
  "trend_safe_ratio numerator denominator =
     (if denominator = 0 then None else Some (numerator / denominator))"

record trend_row =
  month_start :: timestamp
  units :: string
  view_level :: string
  bu_code :: string
  bu_name :: string
  prod_fam :: string
  product :: string
  t_marketing_manager :: string
  metric_name :: string
  actuals_sum :: real
  model_side :: string
  metric_value :: "real option"
  forecast_sum :: real
  abs_error_sum :: real

definition view_rows ::
  "raw_row list \<Rightarrow> timestamp \<Rightarrow> string \<Rightarrow> string \<Rightarrow> string \<Rightarrow> string \<Rightarrow> string \<Rightarrow> string \<Rightarrow> string
     \<Rightarrow> trend_row list" where
  "view_rows frame month_start_v units_v view_level_v bu_code_v bu_name_v prod_fam_v product_v manager_v =
     (let actuals_sum_v = sum_list (map Actuals frame);
          stats_forecast_sum = sum_list (map Stats_Model_Fcast frame);
          marketing_forecast_sum = sum_list (map Marketing_Fcast frame);
          stats_abs_error_sum = sum_list (map Stats_Abs_Error frame);
          marketing_abs_error_sum = sum_list (map Marketing_Abs_Error frame);
          stats_acc = trend_safe_ratio actuals_sum_v stats_forecast_sum;
          marketing_acc = trend_safe_ratio actuals_sum_v marketing_forecast_sum
      in [\<lparr>month_start = month_start_v, units = units_v, view_level = view_level_v,
           bu_code = bu_code_v, bu_name = bu_name_v, prod_fam = prod_fam_v,
           product = product_v, t_marketing_manager = manager_v,
           metric_name = ''midmark_fcast_acc'', actuals_sum = actuals_sum_v,
           model_side = ''stats_model'', metric_value = stats_acc,
           forecast_sum = stats_forecast_sum, abs_error_sum = stats_abs_error_sum\<rparr>,
          \<lparr>month_start = month_start_v, units = units_v, view_level = view_level_v,
           bu_code = bu_code_v, bu_name = bu_name_v, prod_fam = prod_fam_v,
           product = product_v, t_marketing_manager = manager_v,
           metric_name = ''midmark_fcast_acc'', actuals_sum = actuals_sum_v,
           model_side = ''marketing'', metric_value = marketing_acc,
           forecast_sum = marketing_forecast_sum, abs_error_sum = marketing_abs_error_sum\<rparr>])"

definition build_month_trend_rows :: "raw_row list \<Rightarrow> timestamp \<Rightarrow> trend_row list" where
  "build_month_trend_rows raw month_start_v =
     for_units raw (\<lambda>units_v unit_df.
       view_rows unit_df month_start_v units_v ''total'' ''ALL'' ''Total'' [] [] []
       @ concat (map (\<lambda>((bu_code_v, bu_name_v), grp).
           view_rows grp month_start_v units_v ''bu'' (astype_str (Cell bu_code_v)) (astype_str (Cell bu_name_v))
             [] [] [])
         (groupby (\<lambda>r. (Division r, BU_Name r)) ord2 unit_df))
       @ concat (map (\<lambda>((bu_code_v, bu_name_v, prod_fam_v), grp).
           view_rows grp month_start_v units_v ''prod_fam'' (astype_str (Cell bu_code_v))
             (astype_str (Cell bu_name_v)) (astype_str (Cell prod_fam_v)) [] [])
         (groupby (\<lambda>r. (Division r, BU_Name r, Prod_Fam r)) ord3 unit_df))
       @ concat (map (\<lambda>((bu_code_v, bu_name_v, product_v, manager), grp).
           view_rows grp month_start_v units_v ''product'' (astype_str (Cell bu_code_v))
             (astype_str (Cell bu_name_v))
             (case grp of [] \<Rightarrow> [] | r # _ \<Rightarrow> astype_str (Cell (Prod_Fam r)))
             (astype_str (Cell product_v)) (astype_str (Cell manager)))
         (groupby (\<lambda>r. (Division r, BU_Name r, Product r, Marketing_Manager r)) ord4 unit_df)))"

subsection \<open>The product view of the trend report\<close>

text \<open>
  \<^verbatim>\<open>groupby("units").cumcount()\<close>: for every row, the number of earlier rows with the
  same units; \<open>seen\<close> holds the units of the earlier rows.
\<close>

fun cumcount :: "'a list \<Rightarrow> 'a list \<Rightarrow> nat list" where
  "cumcount seen [] = []"
| "cumcount seen (u # us) = count_list seen u # cumcount (u # seen) us"





text \<open>
  A month with two products of division D100: widget A is forecast in units and has
  actuals but no statistical forecast, widget B is forecast in dollars and has a blended
  statistical forecast but no actuals.
\<close>

definition scenario_marketing :: "marketing_row list" where
  "scenario_marketing =
     [marketing_entry (Str ''D100'') (Str ''LOC1'') (Str ''Widget-A''),
      marketing_entry (Str ''D100'') (Str ''LOC1'') (Str ''Widget-B'')]"

definition scenario_catalog :: "catalog_row list" where
  "scenario_catalog =
     [catalog_entry (Str ''WIDGET-A'') (Str ''D100'') (Str ''Widget-A''),
      (catalog_entry (Str ''WIDGET-B'') (Str ''D100'') (Str ''Widget-B''))
        \<lparr>salesforce_feature_mode := Str ''Dollars''\<rparr>]"

definition scenario_actuals :: "actuals_row list" where
  "scenario_actuals =
     [\<lparr>act_Product = Str ''widget-a'', act_Division = Str ''D100'',
       act_Month = Some march_2024, act_Actuals = Some 120\<rparr>]"

definition scenario_stats :: "stats_row list" where
  "scenario_stats =
     [\<lparr>product_id = Str ''Widget-B'', bu_id = Str ''D100'', forecast_month = Some march_2024,
       model_type = Str ''Blend'', forecast_value = Some 4000, recommended_model = Some False\<rparr>]"

definition scenario_raw :: "raw_row list" where
  "scenario_raw =
     build_raw_data scenario_marketing scenario_catalog scenario_stats scenario_actuals
       march_2024"

subsection \<open>Missing matches in the words of the specification\<close>

text \<open>
  A reconciled record has no actuals match (no statistical match) when the actuals
  rollup (the statistical rollup) has no row for its normalized product and
  business-unit keys.
\<close>

definition no_actuals_match :: "actuals_row list \<Rightarrow> timestamp \<Rightarrow> raw_row \<Rightarrow> bool" where
  "no_actuals_match actuals_df month_start_v r \<longleftrightarrow>
     (normalize_key (Cell (Product r)), normalize_key (Cell (Division r)))
       \<notin> fst ` set (actuals_rollup actuals_df month_start_v)"

definition no_stats_match :: "stats_row list \<Rightarrow> timestamp \<Rightarrow> raw_row \<Rightarrow> bool" where
  "no_stats_match stats_df month_start_v r \<longleftrightarrow>
     (normalize_key (Cell (Product r)), normalize_key (Cell (Division r)))
       \<notin> fst ` set (stats_rollup stats_df month_start_v)"

text \<open>The records of the five dashboards.\<close>

definition dashboards :: "raw_row list \<Rightarrow> dash_record list" where
  "dashboards raw =
     build_totals_dashboard raw @ build_prod_fam_dashboard raw
     @ build_prod_fam_wape_dashboard raw @ build_marketing_manager_dashboard raw
     @ build_product_dashboard raw"

text \<open>
  Statistical forecasts for March 2024: product A has two blended rows (one of them also
  flagged recommended) and a recommended row of another model, product B has a
  recommended row and one that is neither, product C has a blended row of another month.
\<close>

definition stats_entry :: "string \<Rightarrow> string \<Rightarrow> real \<Rightarrow> bool \<Rightarrow> stats_row" where
  "stats_entry p m v rec =
     \<lparr>product_id = Str p, bu_id = Str ''D100'', forecast_month = Some march_2024,
      model_type = Str m, forecast_value = Some v, recommended_model = Some rec\<rparr>"

definition coalesce_stats :: "stats_row list" where
  "coalesce_stats =
     [stats_entry ''b'' ''ETS'' 5 True,
      stats_entry ''a'' ''blend'' 10 False,
      stats_entry ''A '' ''BLEND'' 20 True,
      stats_entry ''A'' ''ETS'' 7 True,
      stats_entry ''B'' ''ARIMA'' 9 False,
      (stats_entry ''C'' ''BLEND'' 100 True)
        \<lparr>forecast_month := Some \<lparr>year = 2024, month = 4, day = 1\<rparr>\<rparr>]"

subsection \<open>The top-N products in the words of the specification\<close>






subsection \<open>Module state and the report run\<close>

text \<open>
  The state the runs act on: the module global \<^verbatim>\<open>legacy.ACTUALS_FILE\<close> and the paths of
  the files written so far, in order (contents are not tracked). An action returns
  normally (\<open>Inr\<close>) or raises (\<open>Inl\<close>), and leaves a state in both cases.
\<close>

datatype exn =
  SystemExit string
  | SystemExit_DQ_FAIL int string
  | Raised string

record py_state =
  ACTUALS_FILE :: string
  written :: "string list"

record report_config =
  report_month :: timestamp
  marketing_file :: string
  product_catalog_file :: string
  stats_model_file :: string
  output_file :: string

type_synonym action = "py_state \<Rightarrow> (exn + unit) \<times> py_state"

text \<open>\<^verbatim>\<open>try: body finally: final\<close>: the final block runs on either outcome of the body.\<close>

definition try_finally :: "action \<Rightarrow> (py_state \<Rightarrow> py_state) \<Rightarrow> action" where
  "try_finally body final s = (case body s of (r, s') \<Rightarrow> (r, final s'))"

text \<open>
  \<^verbatim>\<open>build_report_from_frames\<close>. The four frames are written to files of the temporary
  directory \<open>td\<close>; \<^verbatim>\<open>legacy.write_report\<close>, which reads the global and writes the
  report, is a parameter: any action, returning or raising.
\<close>

definition build_report_from_frames ::
  "(report_config \<Rightarrow> action) \<Rightarrow> timestamp \<Rightarrow> string \<Rightarrow> string \<Rightarrow> action" where
  "build_report_from_frames write_report report_month_v output_path td s =
     (let marketing_file_v = td @ ''/marketing.xlsx'';
          catalog_file = td @ ''/catalog.xlsx'';
          stats_file = td @ ''/stats.xlsx'';
          actuals_file = td @ ''/actuals.xlsx'';
          s1 = s\<lparr>written := written s @ [marketing_file_v, catalog_file, stats_file, actuals_file]\<rparr>;
          original_actuals = ACTUALS_FILE s1
      in try_finally
           (\<lambda>s2. write_report
                    \<lparr>report_month = report_month_v, marketing_file = marketing_file_v,
                     product_catalog_file = catalog_file, stats_model_file = stats_file,
                     output_file = output_path\<rparr>
                    (s2\<lparr>ACTUALS_FILE := actuals_file\<rparr>))
           (\<lambda>s3. s3\<lparr>ACTUALS_FILE := original_actuals\<rparr>)
           s1)"

subsection \<open>The data-quality enforcement\<close>

record dq_check =
  check_name :: string
  severity :: string
  passed :: bool

definition checks_failed :: "dq_check list \<Rightarrow> int" where
  "checks_failed checks = sum_list (map (\<lambda>c. if passed c then 0 else 1) checks)"

definition critical_failed :: "dq_check list \<Rightarrow> int" where
  "critical_failed checks =
     sum_list (map (\<lambda>c. if passed c \<or> severity c \<noteq> ''critical'' then 0 else 1) checks)"

definition warning_failed :: "dq_check list \<Rightarrow> int" where
  "warning_failed checks =
     sum_list (map (\<lambda>c. if passed c \<or> severity c \<noteq> ''warning'' then 0 else 1) checks)"

text \<open>
  \<^verbatim>\<open>main\<close> of the monthly report, from the data-quality checks on: \<open>checks\<close> are the
  checks \<^verbatim>\<open>run_dq_checks\<close> produced for the loaded frames. The log of the checks is
  written first; the report is built only when the run has not been stopped.
\<close>

record report_args =
  dq_mode :: string
  data_source :: string
  compare_baseline :: string
  output_path_arg :: string
  dq_log_path :: string
  compare_path :: string

definition report_main ::
  "(report_config \<Rightarrow> action) \<Rightarrow> report_args \<Rightarrow> timestamp \<Rightarrow> dq_check list \<Rightarrow> string \<Rightarrow> action" where
  "report_main write_report args report_month_v checks td s =
     (let s1 = s\<lparr>written := written s @ [dq_log_path args]\<rparr>
      in if dq_mode args = ''fail'' \<and> critical_failed checks > 0
         then (Inl (SystemExit ''Critical DQ checks failed. Report generation aborted.''), s1)
         else (case build_report_from_frames write_report report_month_v (output_path_arg args)
                      td s1 of
                 (Inl e, s2) \<Rightarrow> (Inl e, s2)
               | (Inr u, s2) \<Rightarrow>
                   if compare_baseline args \<noteq> ''none''
                      \<and> compare_baseline args \<noteq> data_source args
                   then (Inr (), s2\<lparr>written := written s2 @ [compare_path args]\<rparr>)
                   else (Inr (), s2)))"

text \<open>
  \<^verbatim>\<open>main\<close> of the trend report, from the window on: \<open>trend_frames\<close> holds one entry per
  month that produced rows, \<open>checks\<close> are the checks \<^verbatim>\<open>run_dq_checks\<close> produced. The log
  is written, then \<^verbatim>\<open>write_outputs\<close> writes the workbook, then the
  enforcement mode is applied.
\<close>

record trend_args =
  t_dq_mode :: string
  window_months :: int
  t_output_path :: string
  t_dq_log :: string

definition trend_main :: "trend_args \<Rightarrow> trend_row list list \<Rightarrow> dq_check list \<Rightarrow> action" where
  "trend_main args trend_frames checks s =
     (if window_months args \<le> 0 then (Inl (SystemExit ''--window-months must be >= 1''), s)
      else if trend_frames = []
      then (Inl (SystemExit
              ''No trend data rows were generated for the selected rolling window.''), s)
      else (let s1 = s\<lparr>written := written s @ [t_dq_log args]\<rparr>;
                s2 = s1\<lparr>written := written s1 @ [t_output_path args]\<rparr>
            in if t_dq_mode args = ''fail'' \<and> critical_failed checks > 0
               then (Inl (SystemExit_DQ_FAIL (critical_failed checks) (t_dq_log args)), s2)
               else (Inr (), s2)))"

text \<open>A run of the trend report with one failed critical check, and an empty state.\<close>

definition failed_critical :: dq_check where
  "failed_critical =
     \<lparr>check_name = ''source_coverage_by_month'', severity = ''critical'', passed = False\<rparr>"


definition fail_mode_report :: report_args where
  "fail_mode_report =
     \<lparr>dq_mode = ''fail'', data_source = ''db'', compare_baseline = ''legacy'',
      output_path_arg = ''report.xlsx'', dq_log_path = ''report_dq.json'',
      compare_path = ''comparison.xlsx''\<rparr>"

definition start_state :: py_state where
  "start_state = \<lparr>ACTUALS_FILE = ''all_products_actuals_and_bookings.xlsx'', written = []\<rparr>"

text \<open>
  Two behaviours of \<^verbatim>\<open>write_report\<close>: one writes the report and returns, one raises
  before writing; both also overwrite the global, which the real function only reads.
\<close>

definition write_report_ok :: "report_config \<Rightarrow> action" where
  "write_report_ok cfg s =
     (Inr (), s\<lparr>written := written s @ [output_file cfg], ACTUALS_FILE := ''elsewhere.xlsx''\<rparr>)"

definition write_report_raises :: "report_config \<Rightarrow> action" where
  "write_report_raises cfg s = (Inl (Raised ''FileNotFoundError''), s\<lparr>ACTUALS_FILE := ''elsewhere.xlsx''\<rparr>)"

subsection \<open>The dashboards in the words of the specification\<close>

text \<open>The reconciled records of the two unit types the dashboards report on.\<close>

definition reporting_rows :: "raw_row list \<Rightarrow> raw_row list" where
  "reporting_rows raw = filter (\<lambda>r. raw_Units r = ''quantity'' \<or> raw_Units r = ''dollars'') raw"

text \<open>
  The record the specification asks for, for given labels and metric: its grain is the
  reconciled records that agree with the labels, its two values are the sums of the
  forecasts (of the absolute errors, for WAPE) over the actuals sum of the grain, null
  when that sum is zero.
\<close>

definition spec_dash_record ::
  "raw_row list \<Rightarrow> string \<Rightarrow> string option \<Rightarrow> cell \<Rightarrow> cell \<Rightarrow> cell option \<Rightarrow> cell option
     \<Rightarrow> cell option \<Rightarrow> string \<Rightarrow> dash_record" where
  "spec_dash_record raw u scope c n f m p metric =
     (let labels = \<lparr>dr_Units = u, dr_Scope = scope, dr_BU_Code = c, dr_BU_Name = n,
                     dr_Prod_Fam = f, dr_Marketing_Manager = m, dr_Product = p,
                     dr_Metric = metric, dr_Stats_Model = None, dr_Marketing = None\<rparr>;
          grain = filter (in_grain labels) raw;
          A = sum_list (map Actuals grain)
      in if metric = ''WAPE''
         then labels\<lparr>dr_Stats_Model := spec_metric (sum_list (map Stats_Abs_Error grain)) A,
                     dr_Marketing := spec_metric (sum_list (map Marketing_Abs_Error grain)) A\<rparr>
         else labels\<lparr>dr_Stats_Model := spec_metric (sum_list (map Stats_Model_Fcast grain)) A,
                     dr_Marketing := spec_metric (sum_list (map Marketing_Fcast grain)) A\<rparr>)"

subsection \<open>The trend rows in the words of the specification\<close>

text \<open>The forecast column and the absolute-error column of a forecasting side.\<close>

definition side_forecast :: "string \<Rightarrow> raw_row \<Rightarrow> real" where
  "side_forecast side = (if side = ''stats_model'' then Stats_Model_Fcast else Marketing_Fcast)"

definition side_abs_error :: "string \<Rightarrow> raw_row \<Rightarrow> real" where
  "side_abs_error side =
     (if side = ''stats_model'' then Stats_Abs_Error else Marketing_Abs_Error)"

text \<open>
  Record \<open>r\<close> is in the grain of record \<open>r0\<close> at a view level: the same unit type, and
  from the business-unit level on the same business unit, with the same product
  family at the product-family level and the same product and manager at the product
  level.
\<close>

definition same_grain :: "string \<Rightarrow> raw_row \<Rightarrow> raw_row \<Rightarrow> bool" where
  "same_grain level r0 r \<longleftrightarrow>
     raw_Units r = raw_Units r0
     \<and> (if level = ''total'' then True
        else Division r = Division r0 \<and> BU_Name r = BU_Name r0
           \<and> (if level = ''bu'' then True
              else if level = ''prod_fam'' then Prod_Fam r = Prod_Fam r0
              else Product r = Product r0 \<and> Marketing_Manager r = Marketing_Manager r0))"

text \<open>
  The trend row of the grain of \<open>r0\<close> at a view level, for a forecasting side: the
  labels of the grain (the product level carries the product family of the first
  record of the grain), the actuals, forecast and absolute-error sums of the grain,
  and as metric value the actuals sum over the forecast sum, null when the forecast
  sum is zero.
\<close>

definition spec_trend_row ::
  "raw_row list \<Rightarrow> timestamp \<Rightarrow> string \<Rightarrow> raw_row \<Rightarrow> string \<Rightarrow> trend_row" where
  "spec_trend_row raw month_start_v level r0 side =
     (let grain = filter (same_grain level r0) raw;
          A = sum_list (map Actuals grain);
          F = sum_list (map (side_forecast side) grain);
          E = sum_list (map (side_abs_error side) grain)
      in \<lparr>month_start = month_start_v, units = raw_Units r0, view_level = level,
          bu_code = (if level = ''total'' then ''ALL'' else astype_str (Cell (Division r0))),
          bu_name = (if level = ''total'' then ''Total'' else astype_str (Cell (BU_Name r0))),
          prod_fam =
            (if level = ''prod_fam'' then astype_str (Cell (Prod_Fam r0))
             else if level = ''product''
             then (case grain of [] \<Rightarrow> [] | r # _ \<Rightarrow> astype_str (Cell (Prod_Fam r)))
             else []),
          product = (if level = ''product'' then astype_str (Cell (Product r0)) else []),
          t_marketing_manager =
            (if level = ''product'' then astype_str (Cell (Marketing_Manager r0)) else []),
          metric_name = ''midmark_fcast_acc'', actuals_sum = A, model_side = side,
          metric_value = (if F = 0 then None else Some (A / F)),
          forecast_sum = F, abs_error_sum = E\<rparr>)"

text \<open>The trend rows of a month: for every reporting record, level and side.\<close>

definition spec_trend_rows :: "raw_row list \<Rightarrow> timestamp \<Rightarrow> trend_row list" where
  "spec_trend_rows raw month_start_v =
     concat (map (\<lambda>r0.
        concat (map (\<lambda>level.
           [spec_trend_row raw month_start_v level r0 ''stats_model'',
            spec_trend_row raw month_start_v level r0 ''marketing''])
          [''total'', ''bu'', ''prod_fam'', ''product'']))
       (reporting_rows raw))"

subsection \<open>The views \<^verbatim>\<open>build_views\<close> returns\<close>

text \<open>
  A row of a wide view: the index columns of the pivot, one column for each of the two
  forecasting sides \<^verbatim>\<open>_view_rows\<close> writes (after the renaming), and their difference.
\<close>

record 'k wide_row =
  w_index :: 'k
  marketing_acc :: "real option"
  stats_model_acc :: "real option"
  delta_stats_minus_marketing :: "real option"











subsection \<open>The product view in the words of the specification\<close>





section \<open>Properties\<close>

subsection \<open>Strings\<close>

lemma is_space_upper_char: "is_space (upper_char c) = is_space c"
proof -
  have "97 \<le> (of_char c :: nat) \<Longrightarrow> of_char c \<le> (122::nat) \<Longrightarrow>
        (of_char (char_of (of_char c - (32::nat))) :: nat) = of_char c - 32"
    by simp
  then show ?thesis
    by (auto simp: is_space_def upper_char_def Let_def)
qed

lemma upper_char_idem: "upper_char (upper_char c) = upper_char c"
  by (auto simp: upper_char_def Let_def)

lemma upper_idem: "upper (upper s) = upper s"
  by (simp add: upper_def upper_char_idem)

lemma dropWhile_upper:
  "dropWhile is_space (map upper_char s) = map upper_char (dropWhile is_space s)"
  by (induction s) (simp_all add: is_space_upper_char)

lemma strip_upper: "strip (upper s) = upper (strip s)"
  by (simp add: strip_def upper_def dropWhile_upper rev_map)

text \<open>What is left after stripping both ends has no white space at its head.\<close>

lemma dropWhile_rev_dropWhile:
  "dropWhile P (rev (dropWhile P (rev (dropWhile P s)))) = rev (dropWhile P (rev (dropWhile P s)))"
proof (cases "dropWhile P (rev (dropWhile P s))")
  case Nil
  show ?thesis unfolding Nil by simp
next
  case (Cons b bs)
  define a where "a = dropWhile P s"
  have "rev a = takeWhile P (rev a) @ b # bs"
    using Cons unfolding a_def by (metis takeWhile_dropWhile_id)
  then have a: "a = rev bs @ b # rev (takeWhile P (rev a))"
    by (metis rev_append rev.simps(2) rev_rev_ident append.assoc append_Cons append_Nil)
  have "a \<noteq> []" using a by auto
  then have "\<not> P (hd a)"
    unfolding a_def by (metis hd_dropWhile)
  moreover have "hd a = hd (rev bs @ [b])"
    using a by (metis append.assoc append_Cons append_Nil hd_append2 snoc_eq_iff_butlast)
  ultimately have "\<not> P (hd (rev (b # bs)))" by simp
  then have "dropWhile P (rev (b # bs)) = rev (b # bs)"
    by (cases "rev (b # bs)") auto
  then show ?thesis using Cons a_def by simp
qed

lemma strip_idem: "strip (strip s) = strip s"
  by (simp add: strip_def dropWhile_rev_dropWhile)

lemma normalize_key_idem: "normalize_key (Cell (Str (normalize_key v))) = normalize_key v"
  by (simp add: normalize_key_def strip_upper upper_idem strip_idem)

lemma normalize_key_nan: "normalize_key (Cell NaN) = ''NAN''"
  by code_simp

lemma normalize_key_none: "normalize_key PyNone = ''NONE''"
  by code_simp

lemma normalize_key_nan_text: "normalize_key (Cell (Str (strip ''nan''))) = ''NAN''"
  by code_simp

subsection \<open>Key normalization\<close>

text \<open>
  Claim C8, against the claim as stated: the two nulls a key column can hold do not
  normalize to the same value. NaN, the null of a spreadsheet source, becomes
  \<^verbatim>\<open>NAN\<close>; \<^verbatim>\<open>None\<close>, the null of a database source, becomes \<^verbatim>\<open>NONE\<close>.
\<close>

theorem null_keys_differ_counterexample:
  "normalize_key (Cell NaN) = ''NAN'' \<and> normalize_key PyNone = ''NONE''
   \<and> normalize_key (Cell NaN) \<noteq> normalize_key PyNone"
  by code_simp

text \<open>
  Claim C8, amended. \<open>normalize_key\<close> is defined on every value: a string, NaN,
  \<^verbatim>\<open>None\<close> or any other object, and its result is always the trimmed, upper-cased
  rendering of the value; none of \<^verbatim>\<open>astype(str)\<close>, \<^verbatim>\<open>strip\<close> and \<^verbatim>\<open>upper\<close> has a
  failing branch. A null is mapped to a placeholder fixed by its kind, \<^verbatim>\<open>NAN\<close> for NaN
  and \<^verbatim>\<open>NONE\<close> for \<^verbatim>\<open>None\<close>, so two nulls of the same kind have the same key and a
  NaN and a \<^verbatim>\<open>None\<close> have different keys. A key that is already normalized is left
  as it is. In the join, a marketing row without a product (NaN) joins a catalog entry
  without a code list (NaN) when their business units agree.
\<close>

theorem normalize_key_total:
  "normalize_key v = upper (strip (astype_str v))
   \<and> normalize_key (Cell (Str s)) = upper (strip s)
   \<and> normalize_key (Other s) = upper (strip s)
   \<and> normalize_key (Cell NaN) = ''NAN''
   \<and> normalize_key PyNone = ''NONE''
   \<and> normalize_key PyNone \<noteq> normalize_key (Cell NaN)
   \<and> normalize_key (Cell (Str (normalize_key v))) = normalize_key v
   \<and> (mk_Product m = NaN \<and> sku_list e = NaN
        \<and> normalize_key (Cell (mk_BU m)) = normalize_key (Cell (business_unit_code e))
      \<longrightarrow> merge_inner [m] (catalog_expand [e])
            = [\<lparr>mrow = m, crow = \<lparr>entry = e, sku = ''nan''\<rparr>\<rparr>])"
proof (intro conjI impI)
  show "normalize_key v = upper (strip (astype_str v))" by (simp add: normalize_key_def)
  show "normalize_key (Cell (Str s)) = upper (strip s)" by (simp add: normalize_key_def)
  show "normalize_key (Other s) = upper (strip s)" by (simp add: normalize_key_def)
  show "normalize_key (Cell NaN) = ''NAN''" by (rule normalize_key_nan)
  show "normalize_key PyNone = ''NONE''" by (rule normalize_key_none)
  show "normalize_key PyNone \<noteq> normalize_key (Cell NaN)"
    by (simp add: normalize_key_nan normalize_key_none)
  show "normalize_key (Cell (Str (normalize_key v))) = normalize_key v"
    by (rule normalize_key_idem)
next
  assume h: "mk_Product m = NaN \<and> sku_list e = NaN
        \<and> normalize_key (Cell (mk_BU m)) = normalize_key (Cell (business_unit_code e))"
  have s: "strip ''nan'' = ''nan''" by code_simp
  have x: "catalog_expand [e] = [\<lparr>entry = e, sku = ''nan''\<rparr>]"
    using h by (simp add: catalog_expand_def explode_entry_def split_pipe_def s)
  have "keys_match m \<lparr>entry = e, sku = ''nan''\<rparr>"
    using h normalize_key_nan_text
    by (simp add: keys_match_def cm_product_key_def cm_bu_key_def mk_product_key_def
          mk_bu_key_def normalize_key_nan s)
  then show "merge_inner [m] (catalog_expand [e])
            = [\<lparr>mrow = m, crow = \<lparr>entry = e, sku = ''nan''\<rparr>\<rparr>]"
    by (simp add: merge_inner_def x)
qed

theorem normalize_key_total_witness:
  "normalize_key (Cell (Str (normalize_key (Cell (Str '' loc1020 ''))))) = ''LOC1020''
   \<and> normalize_key (Other '' 1020.0'') = upper (strip '' 1020.0'')
   \<and> normalize_key (Cell (Str (normalize_key PyNone))) = ''NONE''
   \<and> merge_inner [marketing_entry (Str ''d100 '') (Str ''LOC1'') NaN]
        (catalog_expand [catalog_entry (Str ''FAM1'') (Str ''D100'') NaN])
      = [\<lparr>mrow = marketing_entry (Str ''d100 '') (Str ''LOC1'') NaN,
          crow = \<lparr>entry = catalog_entry (Str ''FAM1'') (Str ''D100'') NaN, sku = ''nan''\<rparr>\<rparr>]"
proof -
  have k: "normalize_key (Cell (Str '' loc1020 '')) = ''LOC1020''" by code_simp
  have b: "normalize_key (Cell (Str ''d100 '')) = normalize_key (Cell (Str ''D100''))"
    by code_simp
  have h: "mk_Product (marketing_entry (Str ''d100 '') (Str ''LOC1'') NaN) = NaN
        \<and> sku_list (catalog_entry (Str ''FAM1'') (Str ''D100'') NaN) = NaN
        \<and> normalize_key (Cell (mk_BU (marketing_entry (Str ''d100 '') (Str ''LOC1'') NaN)))
          = normalize_key
              (Cell (business_unit_code (catalog_entry (Str ''FAM1'') (Str ''D100'') NaN)))"
    using b by (simp add: marketing_entry_def catalog_entry_def)
  note T1 = normalize_key_total [of "Cell (Str '' loc1020 '')" "'' 1020.0''"
      "marketing_entry (Str ''d100 '') (Str ''LOC1'') NaN"
      "catalog_entry (Str ''FAM1'') (Str ''D100'') NaN"]
  note T2 = normalize_key_total [of PyNone "'' 1020.0''"
      "marketing_entry (Str ''d100 '') (Str ''LOC1'') NaN"
      "catalog_entry (Str ''FAM1'') (Str ''D100'') NaN"]
  have 1: "normalize_key (Cell (Str (normalize_key (Cell (Str '' loc1020 ''))))) = ''LOC1020''"
    using T1 k by metis
  have 2: "normalize_key (Other '' 1020.0'') = upper (strip '' 1020.0'')"
    using T1 by blast
  have 3: "normalize_key (Cell (Str (normalize_key PyNone))) = ''NONE''"
    using T2 by metis
  have 4: "merge_inner [marketing_entry (Str ''d100 '') (Str ''LOC1'') NaN]
        (catalog_expand [catalog_entry (Str ''FAM1'') (Str ''D100'') NaN])
      = [\<lparr>mrow = marketing_entry (Str ''d100 '') (Str ''LOC1'') NaN,
          crow = \<lparr>entry = catalog_entry (Str ''FAM1'') (Str ''D100'') NaN, sku = ''nan''\<rparr>\<rparr>]"
    using T1 h by blast
  from 1 2 3 4 show ?thesis by (intro conjI)
qed

subsection \<open>Catalog expansion\<close>







subsection \<open>The casework rule of the reconciliation join\<close>

text \<open>The filter keeps the same rows whether or not some row triggers the mask.\<close>

lemma casework_filter_eq:
  "casework_filter merged =
     filter (\<lambda>r. \<not> casework_mask r
                  \<or> Some (group_key_norm r) = casework_location_map (location_key r)) merged"
proof (cases "list_ex casework_mask merged")
  case True
  then show ?thesis by (simp add: casework_filter_def)
next
  case False
  then have "\<forall>r\<in>set merged. \<not> casework_mask r" by (simp add: list_ex_iff)
  then have "filter (\<lambda>r. \<not> casework_mask r
                  \<or> Some (group_key_norm r) = casework_location_map (location_key r)) merged = merged"
    by (simp add: filter_id_conv)
  with False show ?thesis by (simp add: casework_filter_def)
qed

lemma casework_location_map_cases:
  "casework_location_map l =
     (if l = ''LOC1080'' then Some ''SYNTHESIS CASEWORK''
      else if l = ''LOC1020'' then Some ''ARTISAN CASEWORK'' else None)"
  by (simp add: casework_location_map_def)

lemma keep_row_iff:
  "keys_match m c \<and> (\<not> casework_mask \<lparr>mrow = m, crow = c\<rparr>
      \<or> Some (group_key_norm \<lparr>mrow = m, crow = c\<rparr>)
          = casework_location_map (location_key \<lparr>mrow = m, crow = c\<rparr>))
   \<longleftrightarrow> c \<in> set (spec_matches m [c])"
  by (auto simp: spec_matches_def casework_mask_def group_key_norm_def location_key_def
        casework_location_map_cases)

lemma spec_matches_filter: "spec_matches m cm = filter (\<lambda>c. c \<in> set (spec_matches m [c])) cm"
  by (auto simp: spec_matches_def intro: filter_cong)

text \<open>
  Claim C6. After the casework filter, the join holds for every marketing row, in
  order, exactly the catalog rows the specification names: for a row with
  business-unit key \<^verbatim>\<open>D200\<close>, product key \<^verbatim>\<open>TOTAL CASEWORK\<close> and location key
  \<^verbatim>\<open>LOC1020\<close> (\<^verbatim>\<open>LOC1080\<close>) its inner-join matches whose normalized group key is
  \<^verbatim>\<open>ARTISAN CASEWORK\<close> (\<^verbatim>\<open>SYNTHESIS CASEWORK\<close>), for any other row all its inner-join
  matches. The filter is applied only when some row triggers the mask: a joined frame
  without such a row is returned as it is.
\<close>

theorem casework_join_matches:
  "casework_filter (merge_inner marketing_df catalog_map) =
     concat (map (\<lambda>m. map (\<lambda>c. \<lparr>mrow = m, crow = c\<rparr>) (spec_matches m catalog_map)) marketing_df)
   \<and> (\<not> list_ex casework_mask merged \<longrightarrow> casework_filter merged = merged)"
proof
  show "\<not> list_ex casework_mask merged \<longrightarrow> casework_filter merged = merged"
    by (simp add: casework_filter_def)
next
  let ?keep = "\<lambda>r. \<not> casework_mask r
                  \<or> Some (group_key_norm r) = casework_location_map (location_key r)"
  have "filter ?keep (map (\<lambda>c. \<lparr>mrow = m, crow = c\<rparr>) (filter (keys_match m) catalog_map))
        = map (\<lambda>c. \<lparr>mrow = m, crow = c\<rparr>) (spec_matches m catalog_map)" for m
  proof -
    have "filter ?keep (map (\<lambda>c. \<lparr>mrow = m, crow = c\<rparr>) (filter (keys_match m) catalog_map))
        = map (\<lambda>c. \<lparr>mrow = m, crow = c\<rparr>)
            (filter (\<lambda>c. keys_match m c \<and> ?keep \<lparr>mrow = m, crow = c\<rparr>) catalog_map)"
      by (simp add: filter_map comp_def conj_commute)
    also have "\<dots> = map (\<lambda>c. \<lparr>mrow = m, crow = c\<rparr>) (spec_matches m catalog_map)"
      using keep_row_iff [of m] spec_matches_filter [of m catalog_map] by simp
    finally show ?thesis .
  qed
  then show "casework_filter (merge_inner marketing_df catalog_map) =
     concat (map (\<lambda>m. map (\<lambda>c. \<lparr>mrow = m, crow = c\<rparr>) (spec_matches m catalog_map)) marketing_df)"
    by (simp add: casework_filter_eq merge_inner_def filter_concat comp_def)
qed

text \<open>
  The scenario of the specification: two total-casework rows of D200, one per location,
  and a catalog with the two casework families and an unrelated one. Each row joins
  its own family only; a row of another location keeps all three matches.
\<close>

theorem casework_join_matches_witness:
  "map (\<lambda>r. (mk_Location (mrow r), group_key (entry (crow r))))
     (casework_filter
        (merge_inner
           [marketing_entry (Str ''D200'') (Str ''LOC1020'') (Str ''Total Casework''),
            marketing_entry (Str ''D200'') (Str ''LOC1080'') (Str ''Total Casework''),
            marketing_entry (Str ''D200'') (Str ''LOC1'') (Str ''Total Casework'')]
           (catalog_expand casework_catalog)))
   = [(Str ''LOC1020'', Str ''Artisan Casework''),
      (Str ''LOC1080'', Str ''Synthesis Casework''),
      (Str ''LOC1'', Str ''Artisan Casework''),
      (Str ''LOC1'', Str ''Synthesis Casework''),
      (Str ''LOC1'', Str ''Other Casework'')]
   \<and> casework_filter
       (merge_inner [marketing_entry (Str ''D200'') (Str ''LOC1'') (Str ''Total Casework'')]
          (catalog_expand casework_catalog))
     = merge_inner [marketing_entry (Str ''D200'') (Str ''LOC1'') (Str ''Total Casework'')]
         (catalog_expand casework_catalog)"
proof -
  have n: "\<not> list_ex casework_mask
       (merge_inner [marketing_entry (Str ''D200'') (Str ''LOC1'') (Str ''Total Casework'')]
          (catalog_expand casework_catalog))"
    by code_simp
  have "map (\<lambda>r. (mk_Location (mrow r), group_key (entry (crow r))))
     (concat (map (\<lambda>m. map (\<lambda>c. \<lparr>mrow = m, crow = c\<rparr>)
                (spec_matches m (catalog_expand casework_catalog)))
           [marketing_entry (Str ''D200'') (Str ''LOC1020'') (Str ''Total Casework''),
            marketing_entry (Str ''D200'') (Str ''LOC1080'') (Str ''Total Casework''),
            marketing_entry (Str ''D200'') (Str ''LOC1'') (Str ''Total Casework'')]))
   = [(Str ''LOC1020'', Str ''Artisan Casework''),
      (Str ''LOC1080'', Str ''Synthesis Casework''),
      (Str ''LOC1'', Str ''Artisan Casework''),
      (Str ''LOC1'', Str ''Synthesis Casework''),
      (Str ''LOC1'', Str ''Other Casework'')]"
    by code_simp
  then show ?thesis
    using casework_join_matches [THEN conjunct2, rule_format, OF n]
    by (simp only: casework_join_matches [THEN conjunct1] simp_thms)
qed

subsection \<open>Grouping\<close>

lemma groupby_member:
  "(k, g) \<in> set (groupby key ord rows) \<longleftrightarrow> k \<in> key ` set rows \<and> g = filter (\<lambda>r. key r = k) rows"
  by (auto simp: groupby_def)

lemma for_units_member:
  "d \<in> set (for_units raw body) \<longleftrightarrow>
     (\<exists>u. (u = ''quantity'' \<or> u = ''dollars'') \<and> filter (\<lambda>r. raw_Units r = u) raw \<noteq> []
          \<and> d \<in> set (body u (filter (\<lambda>r. raw_Units r = u) raw)))"
  by (auto simp: for_units_def Let_def)

subsection \<open>The dashboard metrics\<close>

lemma safe_ratio_spec: "safe_ratio X A = spec_metric X A"
  by (simp add: safe_ratio_def spec_metric_def)

lemma spec_ok_acc:
  assumes "filter (in_grain (acc_record u sc c n pf mg pr g)) raw = g"
  shows "spec_record_ok raw (acc_record u sc c n pf mg pr g)"
proof -
  have "spec_record_ok raw (acc_record u sc c n pf mg pr g) \<longleftrightarrow>
     (let A = sum_list (map Actuals g)
      in if dr_Metric (acc_record u sc c n pf mg pr g) = ''WAPE''
         then dr_Stats_Model (acc_record u sc c n pf mg pr g) = spec_metric (sum_list (map Stats_Abs_Error g)) A
            \<and> dr_Marketing (acc_record u sc c n pf mg pr g) = spec_metric (sum_list (map Marketing_Abs_Error g)) A
         else dr_Metric (acc_record u sc c n pf mg pr g) = ''Midmark Fcast Acc.''
            \<and> dr_Stats_Model (acc_record u sc c n pf mg pr g) = spec_metric (sum_list (map Stats_Model_Fcast g)) A
            \<and> dr_Marketing (acc_record u sc c n pf mg pr g) = spec_metric (sum_list (map Marketing_Fcast g)) A)"
    unfolding spec_record_ok_def Let_def assms ..
  then show ?thesis
    by (simp add: acc_record_def Let_def safe_ratio_spec)
qed

lemma spec_ok_wape:
  assumes "filter (in_grain (wape_record u sc c n pf mg pr g)) raw = g"
  shows "spec_record_ok raw (wape_record u sc c n pf mg pr g)"
proof -
  have "spec_record_ok raw (wape_record u sc c n pf mg pr g) \<longleftrightarrow>
     (let A = sum_list (map Actuals g)
      in if dr_Metric (wape_record u sc c n pf mg pr g) = ''WAPE''
         then dr_Stats_Model (wape_record u sc c n pf mg pr g) = spec_metric (sum_list (map Stats_Abs_Error g)) A
            \<and> dr_Marketing (wape_record u sc c n pf mg pr g) = spec_metric (sum_list (map Marketing_Abs_Error g)) A
         else dr_Metric (wape_record u sc c n pf mg pr g) = ''Midmark Fcast Acc.''
            \<and> dr_Stats_Model (wape_record u sc c n pf mg pr g) = spec_metric (sum_list (map Stats_Model_Fcast g)) A
            \<and> dr_Marketing (wape_record u sc c n pf mg pr g) = spec_metric (sum_list (map Marketing_Fcast g)) A)"
    unfolding spec_record_ok_def Let_def assms ..
  then show ?thesis
    by (simp add: wape_record_def Let_def safe_ratio_spec)
qed

lemma in_grain_acc:
  "in_grain (acc_record u sc c n pf mg pr g) r \<longleftrightarrow>
     raw_Units r = u
     \<and> (sc = Some ''Total''
        \<or> (Division r = c \<and> BU_Name r = n
           \<and> (case pf of None \<Rightarrow> True | Some f \<Rightarrow> Prod_Fam r = f)
           \<and> (case mg of None \<Rightarrow> True | Some m \<Rightarrow> Marketing_Manager r = m)
           \<and> (case pr of None \<Rightarrow> True | Some p \<Rightarrow> Product r = p)))"
  by (simp add: in_grain_def acc_record_def Let_def)

lemma in_grain_wape:
  "in_grain (wape_record u sc c n pf mg pr g) r \<longleftrightarrow>
     raw_Units r = u
     \<and> (sc = Some ''Total''
        \<or> (Division r = c \<and> BU_Name r = n
           \<and> (case pf of None \<Rightarrow> True | Some f \<Rightarrow> Prod_Fam r = f)
           \<and> (case mg of None \<Rightarrow> True | Some m \<Rightarrow> Marketing_Manager r = m)
           \<and> (case pr of None \<Rightarrow> True | Some p \<Rightarrow> Product r = p)))"
  by (simp add: in_grain_def wape_record_def Let_def)

lemma totals_ok: "d \<in> set (build_totals_dashboard raw) \<Longrightarrow> spec_record_ok raw d"
  unfolding build_totals_dashboard_def for_units_member
  by (auto simp: groupby_member in_grain_acc in_grain_wape conj_commute
        intro!: spec_ok_acc spec_ok_wape filter_cong)

lemma prod_fam_ok: "d \<in> set (build_prod_fam_dashboard raw) \<Longrightarrow> spec_record_ok raw d"
  unfolding build_prod_fam_dashboard_def for_units_member
  by (auto simp: groupby_member in_grain_acc in_grain_wape conj_commute
        intro!: spec_ok_acc spec_ok_wape filter_cong)

lemma prod_fam_wape_ok: "d \<in> set (build_prod_fam_wape_dashboard raw) \<Longrightarrow> spec_record_ok raw d"
  unfolding build_prod_fam_wape_dashboard_def for_units_member
  by (auto simp: groupby_member in_grain_acc in_grain_wape conj_commute
        intro!: spec_ok_acc spec_ok_wape filter_cong)

lemma marketing_manager_ok:
  "d \<in> set (build_marketing_manager_dashboard raw) \<Longrightarrow> spec_record_ok raw d"
  unfolding build_marketing_manager_dashboard_def for_units_member
  by (auto simp: groupby_member in_grain_acc in_grain_wape conj_commute
        intro!: spec_ok_acc spec_ok_wape filter_cong)

lemma product_ok: "d \<in> set (build_product_dashboard raw) \<Longrightarrow> spec_record_ok raw d"
  unfolding build_product_dashboard_def for_units_member
  by (auto simp: groupby_member in_grain_acc in_grain_wape conj_commute
        intro!: spec_ok_acc spec_ok_wape filter_cong)

lemma scenario_raw_rows:
  "scenario_raw =
     [\<lparr>Product = Str ''WIDGET-A'', Division = Str ''D100'', Month = march_2024, sku_col = [],
       Prod_Fam = Str ''Family'', raw_Units = ''quantity'', Actuals = 120,
       Stats_Model_Fcast = 0, Marketing_Fcast = 100, Stats_Abs_Error = 120,
       Marketing_Abs_Error = 20, BU_Name = Str ''Medical'', Marketing_Manager = Str ''Manager''\<rparr>,
      \<lparr>Product = Str ''WIDGET-B'', Division = Str ''D100'', Month = march_2024, sku_col = [],
       Prod_Fam = Str ''Family'', raw_Units = ''dollars'', Actuals = 0,
       Stats_Model_Fcast = 4000, Marketing_Fcast = 5000, Stats_Abs_Error = 4000,
       Marketing_Abs_Error = 5000, BU_Name = Str ''Medical'', Marketing_Manager = Str ''Manager''\<rparr>]"
  by code_simp

lemma dashboards_ok: "d \<in> set (dashboards raw) \<Longrightarrow> spec_record_ok raw d"
  unfolding dashboards_def
  using totals_ok prod_fam_ok prod_fam_wape_ok marketing_manager_ok product_ok
  by auto

subsection \<open>The dashboards, grain by grain\<close>

lemma in_grain_labels:
  "in_grain \<lparr>dr_Units = u, dr_Scope = sc, dr_BU_Code = c, dr_BU_Name = n,
              dr_Prod_Fam = pf, dr_Marketing_Manager = mg, dr_Product = pr,
              dr_Metric = metric, dr_Stats_Model = a, dr_Marketing = b\<rparr>
   = (\<lambda>r. raw_Units r = u
     \<and> (sc = Some ''Total''
        \<or> (Division r = c \<and> BU_Name r = n
           \<and> (case pf of None \<Rightarrow> True | Some f \<Rightarrow> Prod_Fam r = f)
           \<and> (case mg of None \<Rightarrow> True | Some m \<Rightarrow> Marketing_Manager r = m)
           \<and> (case pr of None \<Rightarrow> True | Some p \<Rightarrow> Product r = p))))"
  by (rule ext) (simp add: in_grain_def)

lemma acc_record_spec:
  assumes "g = filter (\<lambda>r. raw_Units r = u
     \<and> (sc = Some ''Total''
        \<or> (Division r = c \<and> BU_Name r = n
           \<and> (case pf of None \<Rightarrow> True | Some f \<Rightarrow> Prod_Fam r = f)
           \<and> (case mg of None \<Rightarrow> True | Some m \<Rightarrow> Marketing_Manager r = m)
           \<and> (case pr of None \<Rightarrow> True | Some p \<Rightarrow> Product r = p)))) raw"
  shows "acc_record u sc c n pf mg pr g = spec_dash_record raw u sc c n pf mg pr ''Midmark Fcast Acc.''"
  unfolding assms
  by (simp add: acc_record_def spec_dash_record_def Let_def in_grain_labels safe_ratio_spec)

lemma wape_record_spec:
  assumes "g = filter (\<lambda>r. raw_Units r = u
     \<and> (sc = Some ''Total''
        \<or> (Division r = c \<and> BU_Name r = n
           \<and> (case pf of None \<Rightarrow> True | Some f \<Rightarrow> Prod_Fam r = f)
           \<and> (case mg of None \<Rightarrow> True | Some m \<Rightarrow> Marketing_Manager r = m)
           \<and> (case pr of None \<Rightarrow> True | Some p \<Rightarrow> Product r = p)))) raw"
  shows "wape_record u sc c n pf mg pr g = spec_dash_record raw u sc c n pf mg pr ''WAPE''"
  unfolding assms
  by (simp add: wape_record_def spec_dash_record_def Let_def in_grain_labels safe_ratio_spec)

text \<open>The groups of a unit frame, one per key of a reporting row of that unit type.\<close>

lemma unit_groups:
  "(\<exists>u. (u = ''quantity'' \<or> u = ''dollars'') \<and> filter (\<lambda>r. raw_Units r = u) raw \<noteq> []
        \<and> (\<exists>k g. (k, g) \<in> set (groupby key ord (filter (\<lambda>r. raw_Units r = u) raw)) \<and> Q u k g))
   \<longleftrightarrow> (\<exists>r \<in> set (reporting_rows raw).
          Q (raw_Units r) (key r)
            (filter (\<lambda>x. raw_Units x = raw_Units r \<and> key x = key r) raw))"
  (is "?L \<longleftrightarrow> ?R")
proof
  assume ?L
  then obtain u k g where u: "u = ''quantity'' \<or> u = ''dollars''"
    and m: "(k, g) \<in> set (groupby key ord (filter (\<lambda>r. raw_Units r = u) raw))" and q: "Q u k g"
    by blast
  from m obtain r where r: "r \<in> set raw" "raw_Units r = u" "key r = k"
    and g: "g = filter (\<lambda>x. key x = k) (filter (\<lambda>r. raw_Units r = u) raw)"
    unfolding groupby_member by auto
  have "r \<in> set (reporting_rows raw)" using r u by (auto simp: reporting_rows_def)
  moreover have "g = filter (\<lambda>x. raw_Units x = raw_Units r \<and> key x = key r) raw"
    unfolding g using r by (simp add: conj_commute)
  ultimately show ?R using q r by blast
next
  assume ?R
  then obtain r where r: "r \<in> set (reporting_rows raw)"
    and q: "Q (raw_Units r) (key r)
            (filter (\<lambda>x. raw_Units x = raw_Units r \<and> key x = key r) raw)" by blast
  let ?u = "raw_Units r"
  have u: "?u = ''quantity'' \<or> ?u = ''dollars''" and rr: "r \<in> set raw"
    using r by (auto simp: reporting_rows_def)
  have ne: "filter (\<lambda>x. raw_Units x = ?u) raw \<noteq> []"
    using rr by (auto simp: filter_empty_conv)
  have "(key r, filter (\<lambda>x. key x = key r) (filter (\<lambda>x. raw_Units x = ?u) raw))
      \<in> set (groupby key ord (filter (\<lambda>x. raw_Units x = ?u) raw))"
    unfolding groupby_member using rr by auto
  moreover have "filter (\<lambda>x. key x = key r) (filter (\<lambda>x. raw_Units x = ?u) raw)
      = filter (\<lambda>x. raw_Units x = raw_Units r \<and> key x = key r) raw"
    by (simp add: conj_commute)
  ultimately have "(key r, filter (\<lambda>x. raw_Units x = raw_Units r \<and> key x = key r) raw)
      \<in> set (groupby key ord (filter (\<lambda>x. raw_Units x = ?u) raw))" by simp
  with u ne q show ?L by (intro exI [of _ ?u] conjI exI [of _ "key r"]
      exI [of _ "filter (\<lambda>x. raw_Units x = raw_Units r \<and> key x = key r) raw"])
qed

lemma unit_frames:
  "(\<exists>u. (u = ''quantity'' \<or> u = ''dollars'') \<and> filter (\<lambda>r. raw_Units r = u) raw \<noteq> []
        \<and> Q u (filter (\<lambda>r. raw_Units r = u) raw))
   \<longleftrightarrow> (\<exists>r \<in> set (reporting_rows raw).
          Q (raw_Units r) (filter (\<lambda>x. raw_Units x = raw_Units r) raw))"
  by (auto simp: reporting_rows_def filter_empty_conv)

lemma in_map_groups:
  "d \<in> set (map (\<lambda>(k, g). f k g) xs) \<longleftrightarrow> (\<exists>k g. (k, g) \<in> set xs \<and> d = f k g)"
  by force

lemma in_concat_groups:
  "d \<in> set (concat (map (\<lambda>(k, g). f k g) xs)) \<longleftrightarrow> (\<exists>k g. (k, g) \<in> set xs \<and> d \<in> set (f k g))"
  by auto

lemma product_set:
  "set (build_product_dashboard raw)
     = (\<lambda>r. spec_dash_record raw (raw_Units r) None (Division r) (BU_Name r) None
               (Some (Marketing_Manager r)) (Some (Product r)) ''Midmark Fcast Acc.'')
         ` set (reporting_rows raw)"
proof (intro set_eqI)
  fix d
  let ?f = "\<lambda>u k g. acc_record u None (fst k) (fst (snd k)) None (Some (snd (snd (snd k))))
                       (Some (fst (snd (snd k)))) g"
  have b: "build_product_dashboard raw = for_units raw (\<lambda>u unit_df. map (\<lambda>(k, g). ?f u k g)
         (groupby (\<lambda>r. (Division r, BU_Name r, Product r, Marketing_Manager r)) ord4 unit_df))"
    unfolding build_product_dashboard_def by (simp add: split_def)
  have "d \<in> set (build_product_dashboard raw) \<longleftrightarrow>
     (\<exists>u. (u = ''quantity'' \<or> u = ''dollars'') \<and> filter (\<lambda>r. raw_Units r = u) raw \<noteq> []
        \<and> (\<exists>k g. (k, g) \<in> set (groupby (\<lambda>r. (Division r, BU_Name r, Product r, Marketing_Manager r))
                                  ord4 (filter (\<lambda>r. raw_Units r = u) raw))
              \<and> d = ?f u k g))"
    unfolding b for_units_member in_map_groups ..
  also have "\<dots> \<longleftrightarrow> (\<exists>r \<in> set (reporting_rows raw).
       d = acc_record (raw_Units r) None (Division r) (BU_Name r) None (Some (Marketing_Manager r))
             (Some (Product r))
             (filter (\<lambda>x. raw_Units x = raw_Units r
                \<and> (Division x, BU_Name x, Product x, Marketing_Manager x)
                    = (Division r, BU_Name r, Product r, Marketing_Manager r)) raw))"
    unfolding unit_groups by simp
  also have "\<dots> \<longleftrightarrow> (\<exists>r \<in> set (reporting_rows raw).
       d = spec_dash_record raw (raw_Units r) None (Division r) (BU_Name r) None
               (Some (Marketing_Manager r)) (Some (Product r)) ''Midmark Fcast Acc.'')"
  proof (intro bex_cong refl arg_cong [where f = "\<lambda>x. d = x"] acc_record_spec filter_cong)
    fix r x
    show "(raw_Units x = raw_Units r
                \<and> (Division x, BU_Name x, Product x, Marketing_Manager x)
                    = (Division r, BU_Name r, Product r, Marketing_Manager r))
       = (raw_Units x = raw_Units r \<and> (None = Some ''Total''
        \<or> (Division x = Division r \<and> BU_Name x = BU_Name r
           \<and> (case None of None \<Rightarrow> True | Some f \<Rightarrow> Prod_Fam x = f)
           \<and> (case Some (Marketing_Manager r) of None \<Rightarrow> True | Some m \<Rightarrow> Marketing_Manager x = m)
           \<and> (case Some (Product r) of None \<Rightarrow> True | Some p \<Rightarrow> Product x = p))))"
      by auto
  qed
  finally show "d \<in> set (build_product_dashboard raw) \<longleftrightarrow>
     d \<in> (\<lambda>r. spec_dash_record raw (raw_Units r) None (Division r) (BU_Name r) None
               (Some (Marketing_Manager r)) (Some (Product r)) ''Midmark Fcast Acc.'')
         ` set (reporting_rows raw)"
    unfolding image_iff .
qed

lemma prod_fam_set:
  "set (build_prod_fam_dashboard raw)
     = (\<lambda>r. spec_dash_record raw (raw_Units r) None (Division r) (BU_Name r)
               (Some (Prod_Fam r)) None None ''Midmark Fcast Acc.'')
         ` set (reporting_rows raw)"
proof (intro set_eqI)
  fix d
  let ?f = "\<lambda>u k g. acc_record u None (fst k) (fst (snd k)) (Some (snd (snd k))) None None g"
  have b: "build_prod_fam_dashboard raw = for_units raw (\<lambda>u unit_df. map (\<lambda>(k, g). ?f u k g)
         (groupby (\<lambda>r. (Division r, BU_Name r, Prod_Fam r)) ord3 unit_df))"
    unfolding build_prod_fam_dashboard_def by (simp add: split_def)
  have "d \<in> set (build_prod_fam_dashboard raw) \<longleftrightarrow>
     (\<exists>u. (u = ''quantity'' \<or> u = ''dollars'') \<and> filter (\<lambda>r. raw_Units r = u) raw \<noteq> []
        \<and> (\<exists>k g. (k, g) \<in> set (groupby (\<lambda>r. (Division r, BU_Name r, Prod_Fam r))
                                  ord3 (filter (\<lambda>r. raw_Units r = u) raw))
              \<and> d = ?f u k g))"
    unfolding b for_units_member in_map_groups ..
  also have "\<dots> \<longleftrightarrow> (\<exists>r \<in> set (reporting_rows raw).
       d = acc_record (raw_Units r) None (Division r) (BU_Name r) (Some (Prod_Fam r)) None None
             (filter (\<lambda>x. raw_Units x = raw_Units r
                \<and> (Division x, BU_Name x, Prod_Fam x) = (Division r, BU_Name r, Prod_Fam r)) raw))"
    unfolding unit_groups by simp
  also have "\<dots> \<longleftrightarrow> (\<exists>r \<in> set (reporting_rows raw).
       d = spec_dash_record raw (raw_Units r) None (Division r) (BU_Name r)
               (Some (Prod_Fam r)) None None ''Midmark Fcast Acc.'')"
    by (intro bex_cong refl arg_cong [where f = "\<lambda>x. d = x"] acc_record_spec filter_cong) auto
  finally show "d \<in> set (build_prod_fam_dashboard raw) \<longleftrightarrow>
     d \<in> (\<lambda>r. spec_dash_record raw (raw_Units r) None (Division r) (BU_Name r)
               (Some (Prod_Fam r)) None None ''Midmark Fcast Acc.'') ` set (reporting_rows raw)"
    unfolding image_iff .
qed

lemma prod_fam_wape_set:
  "set (build_prod_fam_wape_dashboard raw)
     = (\<lambda>r. spec_dash_record raw (raw_Units r) None (Division r) (BU_Name r)
               (Some (Prod_Fam r)) None None ''WAPE'')
         ` set (reporting_rows raw)"
proof (intro set_eqI)
  fix d
  let ?f = "\<lambda>u k g. wape_record u None (fst k) (fst (snd k)) (Some (snd (snd k))) None None g"
  have b: "build_prod_fam_wape_dashboard raw = for_units raw (\<lambda>u unit_df. map (\<lambda>(k, g). ?f u k g)
         (groupby (\<lambda>r. (Division r, BU_Name r, Prod_Fam r)) ord3 unit_df))"
    unfolding build_prod_fam_wape_dashboard_def by (simp add: split_def)
  have "d \<in> set (build_prod_fam_wape_dashboard raw) \<longleftrightarrow>
     (\<exists>u. (u = ''quantity'' \<or> u = ''dollars'') \<and> filter (\<lambda>r. raw_Units r = u) raw \<noteq> []
        \<and> (\<exists>k g. (k, g) \<in> set (groupby (\<lambda>r. (Division r, BU_Name r, Prod_Fam r))
                                  ord3 (filter (\<lambda>r. raw_Units r = u) raw))
              \<and> d = ?f u k g))"
    unfolding b for_units_member in_map_groups ..
  also have "\<dots> \<longleftrightarrow> (\<exists>r \<in> set (reporting_rows raw).
       d = wape_record (raw_Units r) None (Division r) (BU_Name r) (Some (Prod_Fam r)) None None
             (filter (\<lambda>x. raw_Units x = raw_Units r
                \<and> (Division x, BU_Name x, Prod_Fam x) = (Division r, BU_Name r, Prod_Fam r)) raw))"
    unfolding unit_groups by simp
  also have "\<dots> \<longleftrightarrow> (\<exists>r \<in> set (reporting_rows raw).
       d = spec_dash_record raw (raw_Units r) None (Division r) (BU_Name r)
               (Some (Prod_Fam r)) None None ''WAPE'')"
    by (intro bex_cong refl arg_cong [where f = "\<lambda>x. d = x"] wape_record_spec filter_cong) auto
  finally show "d \<in> set (build_prod_fam_wape_dashboard raw) \<longleftrightarrow>
     d \<in> (\<lambda>r. spec_dash_record raw (raw_Units r) None (Division r) (BU_Name r)
               (Some (Prod_Fam r)) None None ''WAPE'') ` set (reporting_rows raw)"
    unfolding image_iff .
qed

lemma manager_group_records:
  "[acc_record (raw_Units r) None (Division r) (BU_Name r) None (Some (Marketing_Manager r)) None
      (filter (\<lambda>x. raw_Units x = raw_Units r
         \<and> (Division x, BU_Name x, Marketing_Manager x)
             = (Division r, BU_Name r, Marketing_Manager r)) raw),
    wape_record (raw_Units r) None (Division r) (BU_Name r) None (Some (Marketing_Manager r)) None
      (filter (\<lambda>x. raw_Units x = raw_Units r
         \<and> (Division x, BU_Name x, Marketing_Manager x)
             = (Division r, BU_Name r, Marketing_Manager r)) raw)]
   = [spec_dash_record raw (raw_Units r) None (Division r) (BU_Name r) None
        (Some (Marketing_Manager r)) None ''Midmark Fcast Acc.'',
      spec_dash_record raw (raw_Units r) None (Division r) (BU_Name r) None
        (Some (Marketing_Manager r)) None ''WAPE'']"
proof -
  have 1: "acc_record (raw_Units r) None (Division r) (BU_Name r) None (Some (Marketing_Manager r)) None
      (filter (\<lambda>x. raw_Units x = raw_Units r
         \<and> (Division x, BU_Name x, Marketing_Manager x)
             = (Division r, BU_Name r, Marketing_Manager r)) raw)
     = spec_dash_record raw (raw_Units r) None (Division r) (BU_Name r) None
        (Some (Marketing_Manager r)) None ''Midmark Fcast Acc.''"
    by (intro acc_record_spec filter_cong) auto
  have 2: "wape_record (raw_Units r) None (Division r) (BU_Name r) None (Some (Marketing_Manager r)) None
      (filter (\<lambda>x. raw_Units x = raw_Units r
         \<and> (Division x, BU_Name x, Marketing_Manager x)
             = (Division r, BU_Name r, Marketing_Manager r)) raw)
     = spec_dash_record raw (raw_Units r) None (Division r) (BU_Name r) None
        (Some (Marketing_Manager r)) None ''WAPE''"
    by (intro wape_record_spec filter_cong) auto
  show ?thesis unfolding 1 2 ..
qed

lemma manager_set:
  "set (build_marketing_manager_dashboard raw)
     = (\<Union>r \<in> set (reporting_rows raw).
          {spec_dash_record raw (raw_Units r) None (Division r) (BU_Name r) None
             (Some (Marketing_Manager r)) None ''Midmark Fcast Acc.'',
           spec_dash_record raw (raw_Units r) None (Division r) (BU_Name r) None
             (Some (Marketing_Manager r)) None ''WAPE''})"
proof (intro set_eqI)
  fix d
  let ?f = "\<lambda>u k g. [acc_record u None (fst k) (fst (snd k)) None (Some (snd (snd k))) None g,
                     wape_record u None (fst k) (fst (snd k)) None (Some (snd (snd k))) None g]"
  have b: "build_marketing_manager_dashboard raw
      = for_units raw (\<lambda>u unit_df. concat (map (\<lambda>(k, g). ?f u k g)
         (groupby (\<lambda>r. (Division r, BU_Name r, Marketing_Manager r)) ord3 unit_df)))"
    unfolding build_marketing_manager_dashboard_def by (simp add: split_def)
  have "d \<in> set (build_marketing_manager_dashboard raw) \<longleftrightarrow>
     (\<exists>u. (u = ''quantity'' \<or> u = ''dollars'') \<and> filter (\<lambda>r. raw_Units r = u) raw \<noteq> []
        \<and> (\<exists>k g. (k, g) \<in> set (groupby (\<lambda>r. (Division r, BU_Name r, Marketing_Manager r))
                                  ord3 (filter (\<lambda>r. raw_Units r = u) raw))
              \<and> d \<in> set (?f u k g)))"
    unfolding b for_units_member in_concat_groups ..
  also have "\<dots> \<longleftrightarrow> (\<exists>r \<in> set (reporting_rows raw).
       d \<in> set [acc_record (raw_Units r) None (Division r) (BU_Name r) None
                   (Some (Marketing_Manager r)) None
                   (filter (\<lambda>x. raw_Units x = raw_Units r
                      \<and> (Division x, BU_Name x, Marketing_Manager x)
                          = (Division r, BU_Name r, Marketing_Manager r)) raw),
                 wape_record (raw_Units r) None (Division r) (BU_Name r) None
                   (Some (Marketing_Manager r)) None
                   (filter (\<lambda>x. raw_Units x = raw_Units r
                      \<and> (Division x, BU_Name x, Marketing_Manager x)
                          = (Division r, BU_Name r, Marketing_Manager r)) raw)])"
    unfolding unit_groups by simp
  also have "\<dots> \<longleftrightarrow> (\<exists>r \<in> set (reporting_rows raw).
       d \<in> set [spec_dash_record raw (raw_Units r) None (Division r) (BU_Name r) None
                    (Some (Marketing_Manager r)) None ''Midmark Fcast Acc.'',
                 spec_dash_record raw (raw_Units r) None (Division r) (BU_Name r) None
                    (Some (Marketing_Manager r)) None ''WAPE''])"
    unfolding manager_group_records ..
  finally show "d \<in> set (build_marketing_manager_dashboard raw) \<longleftrightarrow>
     d \<in> (\<Union>r \<in> set (reporting_rows raw).
          {spec_dash_record raw (raw_Units r) None (Division r) (BU_Name r) None
             (Some (Marketing_Manager r)) None ''Midmark Fcast Acc.'',
           spec_dash_record raw (raw_Units r) None (Division r) (BU_Name r) None
             (Some (Marketing_Manager r)) None ''WAPE''})"
    by simp
qed

lemma bu_group_records:
  "[acc_record (raw_Units r) (Some ''BU'') (Division r) (BU_Name r) None None None
      (filter (\<lambda>x. raw_Units x = raw_Units r
         \<and> (Division x, BU_Name x) = (Division r, BU_Name r)) raw),
    wape_record (raw_Units r) (Some ''BU'') (Division r) (BU_Name r) None None None
      (filter (\<lambda>x. raw_Units x = raw_Units r
         \<and> (Division x, BU_Name x) = (Division r, BU_Name r)) raw)]
   = [spec_dash_record raw (raw_Units r) (Some ''BU'') (Division r) (BU_Name r) None None None
        ''Midmark Fcast Acc.'',
      spec_dash_record raw (raw_Units r) (Some ''BU'') (Division r) (BU_Name r) None None None
        ''WAPE'']"
proof -
  have 1: "acc_record (raw_Units r) (Some ''BU'') (Division r) (BU_Name r) None None None
      (filter (\<lambda>x. raw_Units x = raw_Units r
         \<and> (Division x, BU_Name x) = (Division r, BU_Name r)) raw)
     = spec_dash_record raw (raw_Units r) (Some ''BU'') (Division r) (BU_Name r) None None None
        ''Midmark Fcast Acc.''"
    by (intro acc_record_spec filter_cong) auto
  have 2: "wape_record (raw_Units r) (Some ''BU'') (Division r) (BU_Name r) None None None
      (filter (\<lambda>x. raw_Units x = raw_Units r
         \<and> (Division x, BU_Name x) = (Division r, BU_Name r)) raw)
     = spec_dash_record raw (raw_Units r) (Some ''BU'') (Division r) (BU_Name r) None None None
        ''WAPE''"
    by (intro wape_record_spec filter_cong) auto
  show ?thesis unfolding 1 2 ..
qed

lemma total_records:
  "[acc_record (raw_Units r) (Some ''Total'') (Str ''ALL'') (Str ''Total'') None None None
      (filter (\<lambda>x. raw_Units x = raw_Units r) raw),
    wape_record (raw_Units r) (Some ''Total'') (Str ''ALL'') (Str ''Total'') None None None
      (filter (\<lambda>x. raw_Units x = raw_Units r) raw)]
   = [spec_dash_record raw (raw_Units r) (Some ''Total'') (Str ''ALL'') (Str ''Total'') None None
        None ''Midmark Fcast Acc.'',
      spec_dash_record raw (raw_Units r) (Some ''Total'') (Str ''ALL'') (Str ''Total'') None None
        None ''WAPE'']"
proof -
  have 1: "acc_record (raw_Units r) (Some ''Total'') (Str ''ALL'') (Str ''Total'') None None None
      (filter (\<lambda>x. raw_Units x = raw_Units r) raw)
     = spec_dash_record raw (raw_Units r) (Some ''Total'') (Str ''ALL'') (Str ''Total'') None None
        None ''Midmark Fcast Acc.''"
    by (intro acc_record_spec filter_cong) auto
  have 2: "wape_record (raw_Units r) (Some ''Total'') (Str ''ALL'') (Str ''Total'') None None None
      (filter (\<lambda>x. raw_Units x = raw_Units r) raw)
     = spec_dash_record raw (raw_Units r) (Some ''Total'') (Str ''ALL'') (Str ''Total'') None None
        None ''WAPE''"
    by (intro wape_record_spec filter_cong) auto
  show ?thesis unfolding 1 2 ..
qed

lemma ex_conj_disj:
  "(\<exists>u. P u \<and> N u \<and> (A u \<or> B u)) \<longleftrightarrow> (\<exists>u. P u \<and> N u \<and> A u) \<or> (\<exists>u. P u \<and> N u \<and> B u)"
  by blast

lemma totals_set:
  "set (build_totals_dashboard raw)
     = (\<Union>r \<in> set (reporting_rows raw).
          {spec_dash_record raw (raw_Units r) (Some ''BU'') (Division r) (BU_Name r) None None None
             ''Midmark Fcast Acc.'',
           spec_dash_record raw (raw_Units r) (Some ''BU'') (Division r) (BU_Name r) None None None
             ''WAPE'',
           spec_dash_record raw (raw_Units r) (Some ''Total'') (Str ''ALL'') (Str ''Total'') None
             None None ''Midmark Fcast Acc.'',
           spec_dash_record raw (raw_Units r) (Some ''Total'') (Str ''ALL'') (Str ''Total'') None
             None None ''WAPE''})"
proof (intro set_eqI)
  fix d
  let ?f = "\<lambda>u k g. [acc_record u (Some ''BU'') (fst k) (snd k) None None None g,
                     wape_record u (Some ''BU'') (fst k) (snd k) None None None g]"
  let ?t = "\<lambda>u unit_df.
     [acc_record u (Some ''Total'') (Str ''ALL'') (Str ''Total'') None None None unit_df,
      wape_record u (Some ''Total'') (Str ''ALL'') (Str ''Total'') None None None unit_df]"
  have b: "build_totals_dashboard raw
      = for_units raw (\<lambda>u unit_df. concat (map (\<lambda>(k, g). ?f u k g)
         (groupby (\<lambda>r. (Division r, BU_Name r)) ord2 unit_df)) @ ?t u unit_df)"
    unfolding build_totals_dashboard_def by (simp add: split_def)
  have "d \<in> set (build_totals_dashboard raw) \<longleftrightarrow>
     (\<exists>u. (u = ''quantity'' \<or> u = ''dollars'') \<and> filter (\<lambda>r. raw_Units r = u) raw \<noteq> []
        \<and> ((\<exists>k g. (k, g) \<in> set (groupby (\<lambda>r. (Division r, BU_Name r))
                                  ord2 (filter (\<lambda>r. raw_Units r = u) raw))
              \<and> d \<in> set (?f u k g))
           \<or> d \<in> set (?t u (filter (\<lambda>r. raw_Units r = u) raw))))"
    unfolding b for_units_member set_append Un_iff in_concat_groups ..
  also have "\<dots> \<longleftrightarrow>
     (\<exists>r \<in> set (reporting_rows raw).
       d \<in> set [acc_record (raw_Units r) (Some ''BU'') (Division r) (BU_Name r) None None None
                   (filter (\<lambda>x. raw_Units x = raw_Units r
                      \<and> (Division x, BU_Name x) = (Division r, BU_Name r)) raw),
                 wape_record (raw_Units r) (Some ''BU'') (Division r) (BU_Name r) None None None
                   (filter (\<lambda>x. raw_Units x = raw_Units r
                      \<and> (Division x, BU_Name x) = (Division r, BU_Name r)) raw)])
     \<or> (\<exists>r \<in> set (reporting_rows raw).
       d \<in> set [acc_record (raw_Units r) (Some ''Total'') (Str ''ALL'') (Str ''Total'') None None
                   None (filter (\<lambda>x. raw_Units x = raw_Units r) raw),
                 wape_record (raw_Units r) (Some ''Total'') (Str ''ALL'') (Str ''Total'') None None
                   None (filter (\<lambda>x. raw_Units x = raw_Units r) raw)])"
  proof -
    have A: "(\<exists>u. (u = ''quantity'' \<or> u = ''dollars'') \<and> filter (\<lambda>r. raw_Units r = u) raw \<noteq> []
        \<and> (\<exists>k g. (k, g) \<in> set (groupby (\<lambda>r. (Division r, BU_Name r))
                                  ord2 (filter (\<lambda>r. raw_Units r = u) raw))
              \<and> d \<in> set (?f u k g)))
      \<longleftrightarrow> (\<exists>r \<in> set (reporting_rows raw).
       d \<in> set [acc_record (raw_Units r) (Some ''BU'') (Division r) (BU_Name r) None None None
                   (filter (\<lambda>x. raw_Units x = raw_Units r
                      \<and> (Division x, BU_Name x) = (Division r, BU_Name r)) raw),
                 wape_record (raw_Units r) (Some ''BU'') (Division r) (BU_Name r) None None None
                   (filter (\<lambda>x. raw_Units x = raw_Units r
                      \<and> (Division x, BU_Name x) = (Division r, BU_Name r)) raw)])"
      unfolding unit_groups by simp
    have B: "(\<exists>u. (u = ''quantity'' \<or> u = ''dollars'') \<and> filter (\<lambda>r. raw_Units r = u) raw \<noteq> []
        \<and> d \<in> set (?t u (filter (\<lambda>r. raw_Units r = u) raw)))
      \<longleftrightarrow> (\<exists>r \<in> set (reporting_rows raw).
       d \<in> set [acc_record (raw_Units r) (Some ''Total'') (Str ''ALL'') (Str ''Total'') None None
                   None (filter (\<lambda>x. raw_Units x = raw_Units r) raw),
                 wape_record (raw_Units r) (Some ''Total'') (Str ''ALL'') (Str ''Total'') None None
                   None (filter (\<lambda>x. raw_Units x = raw_Units r) raw)])"
      by (rule unit_frames [where Q = "\<lambda>u df. d \<in> set (?t u df)"])
    show ?thesis unfolding ex_conj_disj A B ..
  qed
  also have "\<dots> \<longleftrightarrow>
     (\<exists>r \<in> set (reporting_rows raw).
       d \<in> set [spec_dash_record raw (raw_Units r) (Some ''BU'') (Division r) (BU_Name r) None None
                   None ''Midmark Fcast Acc.'',
                 spec_dash_record raw (raw_Units r) (Some ''BU'') (Division r) (BU_Name r) None None
                   None ''WAPE''])
     \<or> (\<exists>r \<in> set (reporting_rows raw).
       d \<in> set [spec_dash_record raw (raw_Units r) (Some ''Total'') (Str ''ALL'') (Str ''Total'')
                   None None None ''Midmark Fcast Acc.'',
                 spec_dash_record raw (raw_Units r) (Some ''Total'') (Str ''ALL'') (Str ''Total'')
                   None None None ''WAPE''])"
    unfolding bu_group_records total_records ..
  finally show "d \<in> set (build_totals_dashboard raw) \<longleftrightarrow>
     d \<in> (\<Union>r \<in> set (reporting_rows raw).
          {spec_dash_record raw (raw_Units r) (Some ''BU'') (Division r) (BU_Name r) None None None
             ''Midmark Fcast Acc.'',
           spec_dash_record raw (raw_Units r) (Some ''BU'') (Division r) (BU_Name r) None None None
             ''WAPE'',
           spec_dash_record raw (raw_Units r) (Some ''Total'') (Str ''ALL'') (Str ''Total'') None
             None None ''Midmark Fcast Acc.'',
           spec_dash_record raw (raw_Units r) (Some ''Total'') (Str ''ALL'') (Str ''Total'') None
             None None ''WAPE''})"
    by auto
qed

text \<open>
  Claim C1, against the claim as stated: the product grain has no WAPE. On the scenario
  the product grain of widget A has actuals sum 120 and marketing absolute error 20,
  the product dashboard reports its accuracy ratios only, and no record of any
  dashboard carries a WAPE for a product.
\<close>

theorem product_grain_wape_counterexample:
  "map (\<lambda>r. (raw_Units r, Actuals r, Marketing_Abs_Error r))
     (filter (\<lambda>r. Product r = Str ''WIDGET-A'') scenario_raw)
   = [(''quantity'', 120, 20)]
   \<and> map (\<lambda>d. (dr_Units d, dr_Product d, dr_Metric d, dr_Stats_Model d, dr_Marketing d))
       (build_product_dashboard scenario_raw)
     = [(''quantity'', Some (Str ''WIDGET-A''), ''Midmark Fcast Acc.'', Some 0, Some (5 / 6)),
        (''dollars'', Some (Str ''WIDGET-B''), ''Midmark Fcast Acc.'', None, None)]
   \<and> filter (\<lambda>d. dr_Product d \<noteq> None \<and> dr_Metric d = ''WAPE'') (dashboards scenario_raw) = []"
  unfolding scenario_raw_rows by code_simp

text \<open>
  Claim C1, amended. For each of the unit types quantity and dollars, every grain that
  holds a reconciled record gets its records, and the dashboards hold nothing else:
  the totals dashboard has the accuracy ratio and the WAPE of every business unit and
  of the total; the product-family dashboards have the accuracy ratio and the WAPE of
  every product family; the manager dashboard has both for every manager; the product
  dashboard has the accuracy ratio of every product, and no WAPE. Each record carries,
  for each forecasting side, the forecast sum (the absolute-error sum for WAPE) of its
  grain divided by the actuals sum \<open>A\<close> of the grain, and null when \<open>A = 0\<close>.
\<close>

theorem dashboard_metrics:
  "set (build_totals_dashboard raw)
     = (\<Union>r \<in> set (reporting_rows raw).
          {spec_dash_record raw (raw_Units r) (Some ''BU'') (Division r) (BU_Name r) None None None
             ''Midmark Fcast Acc.'',
           spec_dash_record raw (raw_Units r) (Some ''BU'') (Division r) (BU_Name r) None None None
             ''WAPE'',
           spec_dash_record raw (raw_Units r) (Some ''Total'') (Str ''ALL'') (Str ''Total'') None
             None None ''Midmark Fcast Acc.'',
           spec_dash_record raw (raw_Units r) (Some ''Total'') (Str ''ALL'') (Str ''Total'') None
             None None ''WAPE''})
   \<and> set (build_prod_fam_dashboard raw)
     = (\<lambda>r. spec_dash_record raw (raw_Units r) None (Division r) (BU_Name r)
               (Some (Prod_Fam r)) None None ''Midmark Fcast Acc.'')
         ` set (reporting_rows raw)
   \<and> set (build_prod_fam_wape_dashboard raw)
     = (\<lambda>r. spec_dash_record raw (raw_Units r) None (Division r) (BU_Name r)
               (Some (Prod_Fam r)) None None ''WAPE'')
         ` set (reporting_rows raw)
   \<and> set (build_marketing_manager_dashboard raw)
     = (\<Union>r \<in> set (reporting_rows raw).
          {spec_dash_record raw (raw_Units r) None (Division r) (BU_Name r) None
             (Some (Marketing_Manager r)) None ''Midmark Fcast Acc.'',
           spec_dash_record raw (raw_Units r) None (Division r) (BU_Name r) None
             (Some (Marketing_Manager r)) None ''WAPE''})
   \<and> set (build_product_dashboard raw)
     = (\<lambda>r. spec_dash_record raw (raw_Units r) None (Division r) (BU_Name r) None
               (Some (Marketing_Manager r)) (Some (Product r)) ''Midmark Fcast Acc.'')
         ` set (reporting_rows raw)
   \<and> safe_ratio X A = spec_metric X A
   \<and> spec_metric X 0 = None
   \<and> (A \<noteq> 0 \<longrightarrow> spec_metric X A = Some (X / A))"
  using totals_set [of raw] prod_fam_set [of raw] prod_fam_wape_set [of raw]
    manager_set [of raw] product_set [of raw] safe_ratio_spec [of X A]
  by (simp add: spec_metric_def)

text \<open>
  On the scenario: the accuracy record of the product grain of widget A, the WAPE
  record of its manager grain, and the null WAPE record of the dollars total, whose
  actuals sum is zero.
\<close>

theorem dashboard_metrics_witness:
  "spec_dash_record scenario_raw ''quantity'' None (Str ''D100'') (Str ''Medical'') None
       (Some (Str ''Manager'')) (Some (Str ''WIDGET-A'')) ''Midmark Fcast Acc.''
     \<in> set (build_product_dashboard scenario_raw)
   \<and> dr_Marketing (spec_dash_record scenario_raw ''quantity'' None (Str ''D100'') (Str ''Medical'')
       None (Some (Str ''Manager'')) (Some (Str ''WIDGET-A'')) ''Midmark Fcast Acc.'')
     = Some (100 / 120)
   \<and> spec_dash_record scenario_raw ''quantity'' None (Str ''D100'') (Str ''Medical'') None
       (Some (Str ''Manager'')) None ''WAPE''
     \<in> set (build_marketing_manager_dashboard scenario_raw)
   \<and> dr_Marketing (spec_dash_record scenario_raw ''quantity'' None (Str ''D100'') (Str ''Medical'')
       None (Some (Str ''Manager'')) None ''WAPE'')
     = Some (20 / 120)
   \<and> spec_dash_record scenario_raw ''dollars'' (Some ''Total'') (Str ''ALL'') (Str ''Total'') None
       None None ''WAPE''
     \<in> set (build_totals_dashboard scenario_raw)
   \<and> dr_Marketing (spec_dash_record scenario_raw ''dollars'' (Some ''Total'') (Str ''ALL'')
       (Str ''Total'') None None None ''WAPE'')
     = None
   \<and> spec_metric 100 120 = Some (100 / 120)"
proof -
  note T = dashboard_metrics [of scenario_raw 100 120]
  have a: "spec_dash_record scenario_raw ''quantity'' None (Str ''D100'') (Str ''Medical'') None
       (Some (Str ''Manager'')) (Some (Str ''WIDGET-A'')) ''Midmark Fcast Acc.''
     \<in> (\<lambda>r. spec_dash_record scenario_raw (raw_Units r) None (Division r) (BU_Name r) None
               (Some (Marketing_Manager r)) (Some (Product r)) ''Midmark Fcast Acc.'')
         ` set (reporting_rows scenario_raw)"
    unfolding scenario_raw_rows by code_simp
  have b: "spec_dash_record scenario_raw ''quantity'' None (Str ''D100'') (Str ''Medical'') None
       (Some (Str ''Manager'')) None ''WAPE''
     \<in> (\<Union>r \<in> set (reporting_rows scenario_raw).
          {spec_dash_record scenario_raw (raw_Units r) None (Division r) (BU_Name r) None
             (Some (Marketing_Manager r)) None ''Midmark Fcast Acc.'',
           spec_dash_record scenario_raw (raw_Units r) None (Division r) (BU_Name r) None
             (Some (Marketing_Manager r)) None ''WAPE''})"
    unfolding scenario_raw_rows by code_simp
  have c: "spec_dash_record scenario_raw ''dollars'' (Some ''Total'') (Str ''ALL'') (Str ''Total'') None
       None None ''WAPE''
     \<in> (\<Union>r \<in> set (reporting_rows scenario_raw).
          {spec_dash_record scenario_raw (raw_Units r) (Some ''BU'') (Division r) (BU_Name r) None
             None None ''Midmark Fcast Acc.'',
           spec_dash_record scenario_raw (raw_Units r) (Some ''BU'') (Division r) (BU_Name r) None
             None None ''WAPE'',
           spec_dash_record scenario_raw (raw_Units r) (Some ''Total'') (Str ''ALL'') (Str ''Total'')
             None None None ''Midmark Fcast Acc.'',
           spec_dash_record scenario_raw (raw_Units r) (Some ''Total'') (Str ''ALL'') (Str ''Total'')
             None None None ''WAPE''})"
    unfolding scenario_raw_rows by code_simp
  have v1: "dr_Marketing (spec_dash_record scenario_raw ''quantity'' None (Str ''D100'')
       (Str ''Medical'') None (Some (Str ''Manager'')) (Some (Str ''WIDGET-A''))
       ''Midmark Fcast Acc.'') = Some (100 / 120)"
    unfolding scenario_raw_rows by code_simp
  have v2: "dr_Marketing (spec_dash_record scenario_raw ''quantity'' None (Str ''D100'')
       (Str ''Medical'') None (Some (Str ''Manager'')) None ''WAPE'') = Some (20 / 120)"
    unfolding scenario_raw_rows by code_simp
  have v3: "dr_Marketing (spec_dash_record scenario_raw ''dollars'' (Some ''Total'') (Str ''ALL'')
       (Str ''Total'') None None None ''WAPE'') = None"
    unfolding scenario_raw_rows by code_simp
  have m: "spec_metric 100 120 = Some (100 / 120)"
    using T by simp
  from T a have 1: "spec_dash_record scenario_raw ''quantity'' None (Str ''D100'') (Str ''Medical'')
       None (Some (Str ''Manager'')) (Some (Str ''WIDGET-A'')) ''Midmark Fcast Acc.''
     \<in> set (build_product_dashboard scenario_raw)" by (simp only:)
  from T b have 2: "spec_dash_record scenario_raw ''quantity'' None (Str ''D100'') (Str ''Medical'')
       None (Some (Str ''Manager'')) None ''WAPE''
     \<in> set (build_marketing_manager_dashboard scenario_raw)" by (simp only:)
  from T c have 3: "spec_dash_record scenario_raw ''dollars'' (Some ''Total'') (Str ''ALL'')
       (Str ''Total'') None None None ''WAPE''
     \<in> set (build_totals_dashboard scenario_raw)" by (simp only:)
  from 1 v1 2 v2 3 v3 m show ?thesis by (intro conjI)
qed

subsection \<open>Zero fill in the final join\<close>

lemma left_join_member:
  "a \<in> set (left_join agg actuals stats) \<Longrightarrow>
     agg_Actuals a = map_of actuals (agg_join_key (agg_key a))
     \<and> agg_forecast_value a
         = (case map_of stats (agg_join_key (agg_key a)) of None \<Rightarrow> None | Some v \<Rightarrow> v)"
  by (auto simp: left_join_def)

lemma map_of_no_key: "k \<notin> fst ` set xs \<Longrightarrow> map_of xs k = None"
  by (simp add: map_of_eq_None_iff)

lemma raw_row_of_agg:
  assumes "r \<in> set (build_raw_data mk cat st act ms)"
  obtains a where "r = raw_of_agg ms a"
    and "agg_Actuals a = map_of (actuals_rollup act ms) (agg_join_key (agg_key a))"
    and "agg_forecast_value a
         = (case map_of (stats_rollup st ms) (agg_join_key (agg_key a)) of
              None \<Rightarrow> None | Some v \<Rightarrow> v)"
  using assms left_join_member unfolding build_raw_data_def build_agg_def
  by (metis (no_types, lifting) imageE list.set_map)

lemma raw_of_agg_fields:
  "Actuals (raw_of_agg ms a) = fillna0 (agg_Actuals a)"
  "Stats_Model_Fcast (raw_of_agg ms a) = fillna0 (agg_forecast_value a)"
  "Marketing_Fcast (raw_of_agg ms a) = agg_Marketing_Fcast a"
  "Stats_Abs_Error (raw_of_agg ms a) = \<bar>fillna0 (agg_Actuals a) - fillna0 (agg_forecast_value a)\<bar>"
  "Marketing_Abs_Error (raw_of_agg ms a) = \<bar>fillna0 (agg_Actuals a) - agg_Marketing_Fcast a\<bar>"
  "(normalize_key (Cell (Product (raw_of_agg ms a))), normalize_key (Cell (Division (raw_of_agg ms a))))
     = agg_join_key (agg_key a)"
  by (simp_all add: raw_of_agg_def agg_join_key_def Let_def split: prod.splits)

lemma missing_actuals_zero:
  assumes "r \<in> set (build_raw_data mk cat st act ms)" and "no_actuals_match act ms r"
  shows "Actuals r = 0"
proof -
  from assms(1) obtain a where a: "r = raw_of_agg ms a"
    "agg_Actuals a = map_of (actuals_rollup act ms) (agg_join_key (agg_key a))"
    by (rule raw_row_of_agg)
  have "agg_join_key (agg_key a) \<notin> fst ` set (actuals_rollup act ms)"
    using assms(2) unfolding no_actuals_match_def a(1) raw_of_agg_fields .
  then have "agg_Actuals a = None" using a(2) by (simp add: map_of_no_key)
  then show ?thesis by (simp add: a(1) raw_of_agg_fields fillna0_def)
qed

lemma missing_stats_zero:
  assumes "r \<in> set (build_raw_data mk cat st act ms)" and "no_stats_match st ms r"
  shows "Stats_Model_Fcast r = 0"
proof -
  from assms(1) obtain a where a: "r = raw_of_agg ms a"
    "agg_forecast_value a
         = (case map_of (stats_rollup st ms) (agg_join_key (agg_key a)) of
              None \<Rightarrow> None | Some v \<Rightarrow> v)"
    by (rule raw_row_of_agg)
  have "agg_join_key (agg_key a) \<notin> fst ` set (stats_rollup st ms)"
    using assms(2) unfolding no_stats_match_def a(1) raw_of_agg_fields .
  then have "agg_forecast_value a = None" using a(2) by (simp add: map_of_no_key)
  then show ?thesis by (simp add: a(1) raw_of_agg_fields fillna0_def)
qed

lemma abs_errors:
  assumes "r \<in> set (build_raw_data mk cat st act ms)"
  shows "Stats_Abs_Error r = \<bar>Actuals r - Stats_Model_Fcast r\<bar>
       \<and> Marketing_Abs_Error r = \<bar>Actuals r - Marketing_Fcast r\<bar>"
proof -
  from assms obtain a where "r = raw_of_agg ms a" by (rule raw_row_of_agg)
  then show ?thesis by (simp add: raw_of_agg_fields)
qed

lemma sum_list_all_zero: "\<forall>r\<in>set g. f r = (0::real) \<Longrightarrow> sum_list (map f g) = 0"
  by (induction g) auto

lemma zero_grain_null:
  assumes "spec_record_ok raw d" and "\<forall>r\<in>set raw. in_grain d r \<longrightarrow> Actuals r = 0"
  shows "dr_Stats_Model d = None \<and> dr_Marketing d = None"
proof -
  have "sum_list (map Actuals (filter (in_grain d) raw)) = 0"
    using assms(2) by (intro sum_list_all_zero) simp
  then show ?thesis
    using assms(1) by (auto simp: spec_record_ok_def Let_def spec_metric_def split: if_splits)
qed

text \<open>
  Claim C3, against the claim as stated: widget A has no row in the statistical rollup,
  its statistical forecast is filled with zero, and its statistical absolute error is
  120, not zero.
\<close>

theorem zero_fill_abs_error_counterexample:
  "map fst (stats_rollup scenario_stats march_2024) = [(''WIDGET-B'', ''D100'')]
   \<and> map (\<lambda>r. (normalize_key (Cell (Product r)), normalize_key (Cell (Division r)), Stats_Model_Fcast r,
                Stats_Abs_Error r)) scenario_raw
     = [(''WIDGET-A'', ''D100'', 0, 120), (''WIDGET-B'', ''D100'', 4000, 4000)]"
  unfolding scenario_raw_rows by code_simp

text \<open>
  Claim C3, amended. In a reconciled record, a side with no matching rollup row has
  the value zero, not null. The absolute errors are never null: each is the distance
  between the actuals and the forecast after the zero fill, so with no actuals match
  it is the absolute value of the forecast, and with no statistical match the
  statistical absolute error is the absolute value of the actuals. A dashboard grain
  all of whose records have no actuals match has actuals sum zero, and its metrics are
  null.
\<close>

theorem zero_fill_on_missing_match:
  "(r \<in> set (build_raw_data mk cat st act ms) \<longrightarrow>
      (no_actuals_match act ms r \<longrightarrow>
         Actuals r = 0 \<and> Stats_Abs_Error r = \<bar>Stats_Model_Fcast r\<bar>
         \<and> Marketing_Abs_Error r = \<bar>Marketing_Fcast r\<bar>)
      \<and> (no_stats_match st ms r \<longrightarrow>
         Stats_Model_Fcast r = 0 \<and> Stats_Abs_Error r = \<bar>Actuals r\<bar>)
      \<and> Stats_Abs_Error r = \<bar>Actuals r - Stats_Model_Fcast r\<bar>
      \<and> Marketing_Abs_Error r = \<bar>Actuals r - Marketing_Fcast r\<bar>)
   \<and> (d \<in> set (dashboards (build_raw_data mk cat st act ms))
       \<and> (\<forall>x \<in> set (build_raw_data mk cat st act ms). in_grain d x \<longrightarrow> no_actuals_match act ms x)
      \<longrightarrow> dr_Stats_Model d = None \<and> dr_Marketing d = None)"
proof (intro conjI impI)
  assume r: "r \<in> set (build_raw_data mk cat st act ms)"
  note e = abs_errors [OF r]
  show "Stats_Abs_Error r = \<bar>Actuals r - Stats_Model_Fcast r\<bar>" using e by simp
  show "Marketing_Abs_Error r = \<bar>Actuals r - Marketing_Fcast r\<bar>" using e by simp
  {
    assume n: "no_actuals_match act ms r"
    show "Actuals r = 0" using missing_actuals_zero [OF r n] .
    then show "Stats_Abs_Error r = \<bar>Stats_Model_Fcast r\<bar>"
      and "Marketing_Abs_Error r = \<bar>Marketing_Fcast r\<bar>" using e by simp_all
  }
  {
    assume n: "no_stats_match st ms r"
    show "Stats_Model_Fcast r = 0" using missing_stats_zero [OF r n] .
    then show "Stats_Abs_Error r = \<bar>Actuals r\<bar>" using e by simp
  }
next
  assume h: "d \<in> set (dashboards (build_raw_data mk cat st act ms))
       \<and> (\<forall>x \<in> set (build_raw_data mk cat st act ms). in_grain d x \<longrightarrow> no_actuals_match act ms x)"
  then have "\<forall>x \<in> set (build_raw_data mk cat st act ms). in_grain d x \<longrightarrow> Actuals x = 0"
    using missing_actuals_zero by blast
  with h have "dr_Stats_Model d = None \<and> dr_Marketing d = None"
    by (intro zero_grain_null dashboards_ok) simp_all
  then show "dr_Stats_Model d = None" and "dr_Marketing d = None" by simp_all
qed

text \<open>
  In the scenario, widget B (the last record) has no actuals match and widget A (the
  first) has no statistical match; the dollars grain of the product dashboard holds
  widget B only.
\<close>

theorem zero_fill_on_missing_match_witness:
  "no_actuals_match scenario_actuals march_2024 (last scenario_raw)
   \<and> Actuals (last scenario_raw) = 0
   \<and> Stats_Abs_Error (last scenario_raw) = 4000
   \<and> Marketing_Abs_Error (last scenario_raw) = 5000
   \<and> no_stats_match scenario_stats march_2024 (hd scenario_raw)
   \<and> Stats_Model_Fcast (hd scenario_raw) = 0
   \<and> Stats_Abs_Error (hd scenario_raw) = 120
   \<and> dr_Units (last (build_product_dashboard scenario_raw)) = ''dollars''
   \<and> dr_Stats_Model (last (build_product_dashboard scenario_raw)) = None
   \<and> dr_Marketing (last (build_product_dashboard scenario_raw)) = None"
proof -
  let ?raw = "build_raw_data scenario_marketing scenario_catalog scenario_stats scenario_actuals
       march_2024"
  have raw: "?raw = scenario_raw" by (simp add: scenario_raw_def)
  have mem: "last scenario_raw \<in> set ?raw" "hd scenario_raw \<in> set ?raw"
    unfolding raw by (simp_all add: scenario_raw_rows)
  have na: "no_actuals_match scenario_actuals march_2024 (last scenario_raw)"
    unfolding scenario_raw_rows by code_simp
  have ns: "no_stats_match scenario_stats march_2024 (hd scenario_raw)"
    unfolding scenario_raw_rows by code_simp
  have vals: "Stats_Model_Fcast (last scenario_raw) = 4000"
    "Marketing_Fcast (last scenario_raw) = 5000" "Actuals (hd scenario_raw) = 120"
    by (simp_all add: scenario_raw_rows)
  have d: "last (build_product_dashboard scenario_raw) \<in> set (dashboards ?raw)"
    unfolding raw scenario_raw_rows by code_simp
  have g: "\<forall>x \<in> set ?raw. in_grain (last (build_product_dashboard scenario_raw)) x
             \<longrightarrow> no_actuals_match scenario_actuals march_2024 x"
    unfolding raw scenario_raw_rows by code_simp
  have u: "dr_Units (last (build_product_dashboard scenario_raw)) = ''dollars''"
    unfolding scenario_raw_rows by code_simp
  show ?thesis
    using zero_fill_on_missing_match [of "last scenario_raw" scenario_marketing scenario_catalog
        scenario_stats scenario_actuals march_2024 "last (build_product_dashboard scenario_raw)"]
      zero_fill_on_missing_match [of "hd scenario_raw" scenario_marketing scenario_catalog
        scenario_stats scenario_actuals march_2024 "last (build_product_dashboard scenario_raw)"]
      mem na ns vals d g u
    by simp
qed

subsection \<open>The statistical-model rollup\<close>

lemma map_of_map_key:
  "map_of (map (\<lambda>k. (k, h k)) ks) k = (if k \<in> set ks then Some (h k) else None)"
  by (induction ks) auto

lemma stats_sum_keys: "map fst (stats_sum rows) = sort (remdups (map stats_key rows))"
  by (simp add: stats_sum_def groupby_def comp_def)

lemma map_of_stats_sum:
  "map_of (stats_sum rows) k =
     (if k \<in> stats_key ` set rows
      then Some (sum_skipna (map forecast_value (filter (\<lambda>r. stats_key r = k) rows)))
      else None)"
proof -
  have "stats_sum rows =
      map (\<lambda>k. (k, sum_skipna (map forecast_value (filter (\<lambda>r. stats_key r = k) rows))))
        (sort (remdups (map stats_key rows)))"
    by (simp add: stats_sum_def groupby_def comp_def)
  then show ?thesis
    by (simp add: map_of_map_key)
qed

text \<open>
  Claim C2. The statistical rollup has one row per key that has a blended row or a
  recommended row in the target month. For a key with a blended row its value is the
  sum of the key's blended forecast values; for any other key it is the sum of the
  key's recommended forecast values. The choice is made per key, and the two sums are
  never added.
\<close>

theorem stats_rollup_prefers_blend:
  "map_of (stats_rollup stats_df ms) k =
     (if k \<in> stats_key ` set (stats_blend (stats_month stats_df ms))
      then Some (Some (sum_skipna (map forecast_value
             (filter (\<lambda>r. stats_key r = k) (stats_blend (stats_month stats_df ms))))))
      else if k \<in> stats_key ` set (stats_fallback (stats_month stats_df ms))
      then Some (Some (sum_skipna (map forecast_value
             (filter (\<lambda>r. stats_key r = k) (stats_fallback (stats_month stats_df ms))))))
      else None)
   \<and> distinct (map fst (stats_rollup stats_df ms))
   \<and> set (map fst (stats_rollup stats_df ms))
       = stats_key ` set (stats_blend (stats_month stats_df ms))
         \<union> stats_key ` set (stats_fallback (stats_month stats_df ms))"
proof -
  let ?B = "stats_blend (stats_month stats_df ms)"
  let ?F = "stats_fallback (stats_month stats_df ms)"
  let ?keys = "sort (remdups (map fst (stats_sum ?B) @ map fst (stats_sum ?F)))"
  have r: "stats_rollup stats_df ms =
      map (\<lambda>k. (k, (case map_of (stats_sum ?B) k of
                          Some v \<Rightarrow> Some v
                        | None \<Rightarrow> map_of (stats_sum ?F) k))) ?keys"
    by (simp add: stats_rollup_def Let_def)
  have keys: "set ?keys = stats_key ` set ?B \<union> stats_key ` set ?F"
    by (simp add: stats_sum_keys)
  have fst: "map fst (stats_rollup stats_df ms) = ?keys"
    unfolding r by (simp add: comp_def)
  have "map_of (stats_rollup stats_df ms) k =
     (if k \<in> set ?keys
      then Some (case map_of (stats_sum ?B) k of Some v \<Rightarrow> Some v
                 | None \<Rightarrow> map_of (stats_sum ?F) k)
      else None)"
    unfolding r by (rule map_of_map_key)
  then have 1: "map_of (stats_rollup stats_df ms) k =
     (if k \<in> stats_key ` set ?B
      then Some (Some (sum_skipna (map forecast_value (filter (\<lambda>r. stats_key r = k) ?B))))
      else if k \<in> stats_key ` set ?F
      then Some (Some (sum_skipna (map forecast_value (filter (\<lambda>r. stats_key r = k) ?F))))
      else None)"
    unfolding keys map_of_stats_sum by simp
  have 2: "distinct (map fst (stats_rollup stats_df ms))"
    unfolding fst by simp
  have 3: "set (map fst (stats_rollup stats_df ms)) = stats_key ` set ?B \<union> stats_key ` set ?F"
    unfolding fst keys ..
  from 1 2 3 show ?thesis by (intro conjI)
qed

theorem stats_rollup_prefers_blend_witness:
  "stats_rollup coalesce_stats march_2024
     = [((''A'', ''D100''), Some 30), ((''B'', ''D100''), Some 5)]
   \<and> map_of (stats_rollup coalesce_stats march_2024) (''A'', ''D100'')
     = Some (Some (sum_skipna [Some 10, Some 20]))
   \<and> map_of (stats_rollup coalesce_stats march_2024) (''B'', ''D100'')
     = Some (Some (sum_skipna [Some 5]))
   \<and> map_of (stats_rollup coalesce_stats march_2024) (''C'', ''D100'') = None"
proof -
  let ?rhs = "\<lambda>k. (if k \<in> stats_key ` set (stats_blend (stats_month coalesce_stats march_2024))
      then Some (Some (sum_skipna (map forecast_value
             (filter (\<lambda>r. stats_key r = k) (stats_blend (stats_month coalesce_stats march_2024))))))
      else if k \<in> stats_key ` set (stats_fallback (stats_month coalesce_stats march_2024))
      then Some (Some (sum_skipna (map forecast_value
             (filter (\<lambda>r. stats_key r = k) (stats_fallback (stats_month coalesce_stats march_2024))))))
      else None)"
  have a: "?rhs (''A'', ''D100'') = Some (Some (sum_skipna [Some 10, Some 20]))" by code_simp
  have b: "?rhs (''B'', ''D100'') = Some (Some (sum_skipna [Some 5]))" by code_simp
  have c: "?rhs (''C'', ''D100'') = None" by code_simp
  have l: "stats_rollup coalesce_stats march_2024
     = [((''A'', ''D100''), Some 30), ((''B'', ''D100''), Some 5)]" by code_simp
  show ?thesis
    using stats_rollup_prefers_blend [of coalesce_stats march_2024 "(''A'', ''D100'')"]
      stats_rollup_prefers_blend [of coalesce_stats march_2024 "(''B'', ''D100'')"]
      stats_rollup_prefers_blend [of coalesce_stats march_2024 "(''C'', ''D100'')"]
      a b c l
    by (simp only: simp_thms)
qed

subsection \<open>The trend rows, grain by grain\<close>

lemma view_rows_spec:
  assumes "g = filter (same_grain level r0) raw"
    and "c = (if level = ''total'' then ''ALL'' else astype_str (Cell (Division r0)))"
    and "n = (if level = ''total'' then ''Total'' else astype_str (Cell (BU_Name r0)))"
    and "pf = (if level = ''prod_fam'' then astype_str (Cell (Prod_Fam r0))
             else if level = ''product''
             then (case g of [] \<Rightarrow> [] | r # _ \<Rightarrow> astype_str (Cell (Prod_Fam r)))
             else [])"
    and "p = (if level = ''product'' then astype_str (Cell (Product r0)) else [])"
    and "m = (if level = ''product'' then astype_str (Cell (Marketing_Manager r0)) else [])"
  shows "view_rows g ms (raw_Units r0) level c n pf p m
     = [spec_trend_row raw ms level r0 ''stats_model'',
        spec_trend_row raw ms level r0 ''marketing'']"
  unfolding assms
  by (simp add: view_rows_def spec_trend_row_def Let_def side_forecast_def side_abs_error_def
      trend_safe_ratio_def)

lemma same_grain_levels:
  "same_grain ''total'' r0 = (\<lambda>x. raw_Units x = raw_Units r0)"
  "same_grain ''bu'' r0
     = (\<lambda>x. raw_Units x = raw_Units r0 \<and> Division x = Division r0 \<and> BU_Name x = BU_Name r0)"
  "same_grain ''prod_fam'' r0
     = (\<lambda>x. raw_Units x = raw_Units r0 \<and> Division x = Division r0 \<and> BU_Name x = BU_Name r0
          \<and> Prod_Fam x = Prod_Fam r0)"
  "same_grain ''product'' r0
     = (\<lambda>x. raw_Units x = raw_Units r0 \<and> Division x = Division r0 \<and> BU_Name x = BU_Name r0
          \<and> Product x = Product r0 \<and> Marketing_Manager x = Marketing_Manager r0)"
  by (rule ext, simp add: same_grain_def)+

lemma total_trend_rows:
  "view_rows (filter (\<lambda>x. raw_Units x = raw_Units r) raw) ms (raw_Units r) ''total'' ''ALL''
      ''Total'' [] [] []
   = [spec_trend_row raw ms ''total'' r ''stats_model'',
      spec_trend_row raw ms ''total'' r ''marketing'']"
  by (rule view_rows_spec) (simp_all add: same_grain_levels)

lemma bu_trend_rows:
  "view_rows (filter (\<lambda>x. raw_Units x = raw_Units r
        \<and> (Division x, BU_Name x) = (Division r, BU_Name r)) raw) ms (raw_Units r) ''bu''
      (astype_str (Cell (Division r))) (astype_str (Cell (BU_Name r))) [] [] []
   = [spec_trend_row raw ms ''bu'' r ''stats_model'',
      spec_trend_row raw ms ''bu'' r ''marketing'']"
  by (rule view_rows_spec) (simp_all add: same_grain_levels)

lemma prod_fam_trend_rows:
  "view_rows (filter (\<lambda>x. raw_Units x = raw_Units r
        \<and> (Division x, BU_Name x, Prod_Fam x) = (Division r, BU_Name r, Prod_Fam r)) raw)
      ms (raw_Units r) ''prod_fam''
      (astype_str (Cell (Division r))) (astype_str (Cell (BU_Name r)))
      (astype_str (Cell (Prod_Fam r))) [] []
   = [spec_trend_row raw ms ''prod_fam'' r ''stats_model'',
      spec_trend_row raw ms ''prod_fam'' r ''marketing'']"
  by (rule view_rows_spec) (simp_all add: same_grain_levels)

lemma product_trend_rows:
  "view_rows (filter (\<lambda>x. raw_Units x = raw_Units r
        \<and> (Division x, BU_Name x, Product x, Marketing_Manager x)
            = (Division r, BU_Name r, Product r, Marketing_Manager r)) raw)
      ms (raw_Units r) ''product''
      (astype_str (Cell (Division r))) (astype_str (Cell (BU_Name r)))
      (case filter (\<lambda>x. raw_Units x = raw_Units r
        \<and> (Division x, BU_Name x, Product x, Marketing_Manager x)
            = (Division r, BU_Name r, Product r, Marketing_Manager r)) raw
       of [] \<Rightarrow> [] | r # _ \<Rightarrow> astype_str (Cell (Prod_Fam r)))
      (astype_str (Cell (Product r))) (astype_str (Cell (Marketing_Manager r)))
   = [spec_trend_row raw ms ''product'' r ''stats_model'',
      spec_trend_row raw ms ''product'' r ''marketing'']"
  by (rule view_rows_spec) (simp_all add: same_grain_levels)

lemma ex_conj_disj4:
  "(\<exists>u. P u \<and> N u \<and> (A u \<or> B u \<or> C u \<or> D u)) \<longleftrightarrow>
     (\<exists>u. P u \<and> N u \<and> A u) \<or> (\<exists>u. P u \<and> N u \<and> B u) \<or> (\<exists>u. P u \<and> N u \<and> C u)
     \<or> (\<exists>u. P u \<and> N u \<and> D u)"
  by blast

lemma spec_trend_rows_member:
  "d \<in> set (spec_trend_rows raw ms) \<longleftrightarrow>
     (\<exists>r \<in> set (reporting_rows raw).
        d \<in> set [spec_trend_row raw ms ''total'' r ''stats_model'',
                 spec_trend_row raw ms ''total'' r ''marketing''])
     \<or> (\<exists>r \<in> set (reporting_rows raw).
        d \<in> set [spec_trend_row raw ms ''bu'' r ''stats_model'',
                 spec_trend_row raw ms ''bu'' r ''marketing''])
     \<or> (\<exists>r \<in> set (reporting_rows raw).
        d \<in> set [spec_trend_row raw ms ''prod_fam'' r ''stats_model'',
                 spec_trend_row raw ms ''prod_fam'' r ''marketing''])
     \<or> (\<exists>r \<in> set (reporting_rows raw).
        d \<in> set [spec_trend_row raw ms ''product'' r ''stats_model'',
                 spec_trend_row raw ms ''product'' r ''marketing''])"
  unfolding spec_trend_rows_def by auto

lemma trend_rows_set:
  "set (build_month_trend_rows raw ms) = set (spec_trend_rows raw ms)"
proof (intro set_eqI)
  fix d
  let ?t = "\<lambda>u unit_df. view_rows unit_df ms u ''total'' ''ALL'' ''Total'' [] [] []"
  let ?b = "\<lambda>u k g. view_rows g ms u ''bu'' (astype_str (Cell (fst k)))
              (astype_str (Cell (snd k))) [] [] []"
  let ?f = "\<lambda>u k g. view_rows g ms u ''prod_fam'' (astype_str (Cell (fst k)))
              (astype_str (Cell (fst (snd k)))) (astype_str (Cell (snd (snd k)))) [] []"
  let ?p = "\<lambda>u k g. view_rows g ms u ''product'' (astype_str (Cell (fst k)))
              (astype_str (Cell (fst (snd k))))
              (case g of [] \<Rightarrow> [] | r # _ \<Rightarrow> astype_str (Cell (Prod_Fam r)))
              (astype_str (Cell (fst (snd (snd k))))) (astype_str (Cell (snd (snd (snd k)))))"
  let ?unit = "\<lambda>u. filter (\<lambda>r. raw_Units r = u) raw"
  have b: "build_month_trend_rows raw ms
      = for_units raw (\<lambda>u unit_df. ?t u unit_df
         @ concat (map (\<lambda>(k, g). ?b u k g)
             (groupby (\<lambda>r. (Division r, BU_Name r)) ord2 unit_df))
         @ concat (map (\<lambda>(k, g). ?f u k g)
             (groupby (\<lambda>r. (Division r, BU_Name r, Prod_Fam r)) ord3 unit_df))
         @ concat (map (\<lambda>(k, g). ?p u k g)
             (groupby (\<lambda>r. (Division r, BU_Name r, Product r, Marketing_Manager r)) ord4
                unit_df)))"
    unfolding build_month_trend_rows_def by (simp add: split_def)
  have "d \<in> set (build_month_trend_rows raw ms) \<longleftrightarrow>
     (\<exists>u. (u = ''quantity'' \<or> u = ''dollars'') \<and> ?unit u \<noteq> []
        \<and> (d \<in> set (?t u (?unit u))
           \<or> (\<exists>k g. (k, g) \<in> set (groupby (\<lambda>r. (Division r, BU_Name r)) ord2 (?unit u))
                \<and> d \<in> set (?b u k g))
           \<or> (\<exists>k g. (k, g) \<in> set (groupby (\<lambda>r. (Division r, BU_Name r, Prod_Fam r)) ord3
                                    (?unit u))
                \<and> d \<in> set (?f u k g))
           \<or> (\<exists>k g. (k, g) \<in> set (groupby
                         (\<lambda>r. (Division r, BU_Name r, Product r, Marketing_Manager r)) ord4
                         (?unit u))
                \<and> d \<in> set (?p u k g))))"
    unfolding b for_units_member set_append Un_iff in_concat_groups ..
  also have "\<dots> \<longleftrightarrow>
     (\<exists>r \<in> set (reporting_rows raw).
        d \<in> set (?t (raw_Units r) (filter (\<lambda>x. raw_Units x = raw_Units r) raw)))
     \<or> (\<exists>r \<in> set (reporting_rows raw).
        d \<in> set (?b (raw_Units r) (Division r, BU_Name r)
           (filter (\<lambda>x. raw_Units x = raw_Units r
              \<and> (Division x, BU_Name x) = (Division r, BU_Name r)) raw)))
     \<or> (\<exists>r \<in> set (reporting_rows raw).
        d \<in> set (?f (raw_Units r) (Division r, BU_Name r, Prod_Fam r)
           (filter (\<lambda>x. raw_Units x = raw_Units r
              \<and> (Division x, BU_Name x, Prod_Fam x) = (Division r, BU_Name r, Prod_Fam r)) raw)))
     \<or> (\<exists>r \<in> set (reporting_rows raw).
        d \<in> set (?p (raw_Units r) (Division r, BU_Name r, Product r, Marketing_Manager r)
           (filter (\<lambda>x. raw_Units x = raw_Units r
              \<and> (Division x, BU_Name x, Product x, Marketing_Manager x)
                  = (Division r, BU_Name r, Product r, Marketing_Manager r)) raw)))"
  proof -
    have A: "(\<exists>u. (u = ''quantity'' \<or> u = ''dollars'') \<and> ?unit u \<noteq> []
        \<and> d \<in> set (?t u (?unit u)))
      \<longleftrightarrow> (\<exists>r \<in> set (reporting_rows raw).
        d \<in> set (?t (raw_Units r) (filter (\<lambda>x. raw_Units x = raw_Units r) raw)))"
      by (rule unit_frames [where Q = "\<lambda>u df. d \<in> set (?t u df)"])
    have B: "(\<exists>u. (u = ''quantity'' \<or> u = ''dollars'') \<and> ?unit u \<noteq> []
        \<and> (\<exists>k g. (k, g) \<in> set (groupby (\<lambda>r. (Division r, BU_Name r)) ord2 (?unit u))
                \<and> d \<in> set (?b u k g)))
      \<longleftrightarrow> (\<exists>r \<in> set (reporting_rows raw).
        d \<in> set (?b (raw_Units r) (Division r, BU_Name r)
           (filter (\<lambda>x. raw_Units x = raw_Units r
              \<and> (Division x, BU_Name x) = (Division r, BU_Name r)) raw)))"
      by (rule unit_groups [where Q = "\<lambda>u k g. d \<in> set (?b u k g)"])
    have C: "(\<exists>u. (u = ''quantity'' \<or> u = ''dollars'') \<and> ?unit u \<noteq> []
        \<and> (\<exists>k g. (k, g) \<in> set (groupby (\<lambda>r. (Division r, BU_Name r, Prod_Fam r)) ord3
                                    (?unit u))
                \<and> d \<in> set (?f u k g)))
      \<longleftrightarrow> (\<exists>r \<in> set (reporting_rows raw).
        d \<in> set (?f (raw_Units r) (Division r, BU_Name r, Prod_Fam r)
           (filter (\<lambda>x. raw_Units x = raw_Units r
              \<and> (Division x, BU_Name x, Prod_Fam x) = (Division r, BU_Name r, Prod_Fam r)) raw)))"
      by (rule unit_groups [where Q = "\<lambda>u k g. d \<in> set (?f u k g)"])
    have D: "(\<exists>u. (u = ''quantity'' \<or> u = ''dollars'') \<and> ?unit u \<noteq> []
        \<and> (\<exists>k g. (k, g) \<in> set (groupby
                         (\<lambda>r. (Division r, BU_Name r, Product r, Marketing_Manager r)) ord4
                         (?unit u))
                \<and> d \<in> set (?p u k g)))
      \<longleftrightarrow> (\<exists>r \<in> set (reporting_rows raw).
        d \<in> set (?p (raw_Units r) (Division r, BU_Name r, Product r, Marketing_Manager r)
           (filter (\<lambda>x. raw_Units x = raw_Units r
              \<and> (Division x, BU_Name x, Product x, Marketing_Manager x)
                  = (Division r, BU_Name r, Product r, Marketing_Manager r)) raw)))"
      by (rule unit_groups [where Q = "\<lambda>u k g. d \<in> set (?p u k g)"])
    show ?thesis unfolding ex_conj_disj4 A B C D ..
  qed
  also have "\<dots> \<longleftrightarrow> d \<in> set (spec_trend_rows raw ms)"
    unfolding spec_trend_rows_member fst_conv snd_conv
      total_trend_rows bu_trend_rows prod_fam_trend_rows product_trend_rows ..
  finally show "d \<in> set (build_month_trend_rows raw ms) \<longleftrightarrow> d \<in> set (spec_trend_rows raw ms)" .
qed

lemma spec_trend_row_metric:
  "metric_value (spec_trend_row raw ms level r side)
     = (if forecast_sum (spec_trend_row raw ms level r side) = 0 then None
        else Some (actuals_sum (spec_trend_row raw ms level r side)
                   / forecast_sum (spec_trend_row raw ms level r side)))"
  by (simp add: spec_trend_row_def Let_def)

text \<open>
  Claim C4, against the claim as stated: on the scenario the total rows of the trend
  report and the total accuracy records of the monthly dashboard differ. For units the
  trend report has null and 6/5 where the dashboard has 0 and 5/6; for dollars, where
  the actuals sum is zero, the trend report has 0 and the dashboard has null.
\<close>

theorem trend_metric_counterexample:
  "map (\<lambda>t. (units t, model_side t, actuals_sum t, forecast_sum t, metric_value t))
     (filter (\<lambda>t. view_level t = ''total'') (build_month_trend_rows scenario_raw march_2024))
   = [(''quantity'', ''stats_model'', 120, 0, None),
      (''quantity'', ''marketing'', 120, 100, Some (6 / 5)),
      (''dollars'', ''stats_model'', 0, 4000, Some 0),
      (''dollars'', ''marketing'', 0, 5000, Some 0)]
   \<and> map (\<lambda>d. (dr_Units d, dr_Stats_Model d, dr_Marketing d))
     (filter (\<lambda>d. dr_Scope d = Some ''Total'' \<and> dr_Metric d = ''Midmark Fcast Acc.'')
        (build_totals_dashboard scenario_raw))
   = [(''quantity'', Some 0, Some (5 / 6)), (''dollars'', None, None)]"
  unfolding scenario_raw_rows by code_simp

text \<open>
  Claim C4, amended. The trend rows of a month are exactly the rows of the grains of
  its reporting records: for each unit type quantity and dollars, each of the levels
  total, business unit, product family and product, each grain that holds a record and
  each forecasting side there is the row that carries the labels of that grain, the
  actuals sum, the forecast sum and the absolute-error sum of the records of that
  grain, and there are no other rows. The metric value of a row is its actuals sum
  divided by its forecast sum (the inverse of the dashboard's ratio), null exactly when
  the forecast sum is zero.
\<close>

theorem trend_metric_is_actuals_over_forecast:
  "set (build_month_trend_rows raw ms) = set (spec_trend_rows raw ms)
   \<and> (\<forall>t \<in> set (build_month_trend_rows raw ms).
        metric_value t
          = (if forecast_sum t = 0 then None else Some (actuals_sum t / forecast_sum t))
        \<and> (metric_value t = None \<longleftrightarrow> forecast_sum t = 0))
   \<and> (\<forall>r \<in> set (reporting_rows raw).
        \<forall>level \<in> {''total'', ''bu'', ''prod_fam'', ''product''}.
        \<forall>side \<in> {''stats_model'', ''marketing''}.
          spec_trend_row raw ms level r side \<in> set (build_month_trend_rows raw ms)
          \<and> units (spec_trend_row raw ms level r side) = raw_Units r
          \<and> view_level (spec_trend_row raw ms level r side) = level
          \<and> model_side (spec_trend_row raw ms level r side) = side
          \<and> actuals_sum (spec_trend_row raw ms level r side)
              = sum_list (map Actuals (filter (same_grain level r) raw))
          \<and> forecast_sum (spec_trend_row raw ms level r side)
              = sum_list (map (side_forecast side) (filter (same_grain level r) raw)))"
proof (intro conjI ballI)
  show eq: "set (build_month_trend_rows raw ms) = set (spec_trend_rows raw ms)"
    by (rule trend_rows_set)
  {
    fix t assume "t \<in> set (build_month_trend_rows raw ms)"
    then have "t \<in> set (spec_trend_rows raw ms)" unfolding eq .
    then obtain level r side where t: "t = spec_trend_row raw ms level r side"
      unfolding spec_trend_rows_member by auto
    show "metric_value t
          = (if forecast_sum t = 0 then None else Some (actuals_sum t / forecast_sum t))"
      unfolding t by (rule spec_trend_row_metric)
    then show "metric_value t = None \<longleftrightarrow> forecast_sum t = 0" by simp
  }
  fix r level side
  assume r: "r \<in> set (reporting_rows raw)"
    and l: "level \<in> {''total'', ''bu'', ''prod_fam'', ''product''}"
    and s: "side \<in> {''stats_model'', ''marketing''}"
  from l s have "spec_trend_row raw ms level r side
     \<in> set [spec_trend_row raw ms level r ''stats_model'',
             spec_trend_row raw ms level r ''marketing'']" by auto
  with r l show "spec_trend_row raw ms level r side \<in> set (build_month_trend_rows raw ms)"
    unfolding eq spec_trend_rows_member by blast
  show "units (spec_trend_row raw ms level r side) = raw_Units r"
    "view_level (spec_trend_row raw ms level r side) = level"
    "model_side (spec_trend_row raw ms level r side) = side"
    "actuals_sum (spec_trend_row raw ms level r side)
       = sum_list (map Actuals (filter (same_grain level r) raw))"
    "forecast_sum (spec_trend_row raw ms level r side)
       = sum_list (map (side_forecast side) (filter (same_grain level r) raw))"
    by (simp_all add: spec_trend_row_def Let_def)
qed

text \<open>
  On the scenario: the marketing row of the product grain of widget A is a row of the
  trend report, with actuals sum 120, forecast sum 100 and metric value 6/5; the rows
  of the unit type quantity are the eight rows of its four grains; and every row has
  its actuals sum over its forecast sum as metric value.
\<close>

theorem trend_metric_is_actuals_over_forecast_witness:
  "hd scenario_raw \<in> set (reporting_rows scenario_raw)
   \<and> Product (hd scenario_raw) = Str ''WIDGET-A''
   \<and> spec_trend_row scenario_raw march_2024 ''product'' (hd scenario_raw) ''marketing''
       \<in> set (build_month_trend_rows scenario_raw march_2024)
   \<and> actuals_sum (spec_trend_row scenario_raw march_2024 ''product'' (hd scenario_raw)
        ''marketing'') = 120
   \<and> forecast_sum (spec_trend_row scenario_raw march_2024 ''product'' (hd scenario_raw)
        ''marketing'') = 100
   \<and> metric_value (spec_trend_row scenario_raw march_2024 ''product'' (hd scenario_raw)
        ''marketing'') = Some (6 / 5)
   \<and> map (\<lambda>t. (view_level t, model_side t, actuals_sum t, forecast_sum t, metric_value t))
       (filter (\<lambda>t. units t = ''quantity'') (build_month_trend_rows scenario_raw march_2024))
     = [(''total'', ''stats_model'', 120, 0, None),
        (''total'', ''marketing'', 120, 100, Some (6 / 5)),
        (''bu'', ''stats_model'', 120, 0, None),
        (''bu'', ''marketing'', 120, 100, Some (6 / 5)),
        (''prod_fam'', ''stats_model'', 120, 0, None),
        (''prod_fam'', ''marketing'', 120, 100, Some (6 / 5)),
        (''product'', ''stats_model'', 120, 0, None),
        (''product'', ''marketing'', 120, 100, Some (6 / 5))]
   \<and> list_all (\<lambda>t. metric_value t
        = (if forecast_sum t = 0 then None else Some (actuals_sum t / forecast_sum t)))
       (build_month_trend_rows scenario_raw march_2024)"
proof -
  note T = trend_metric_is_actuals_over_forecast [of scenario_raw march_2024]
  let ?t = "spec_trend_row scenario_raw march_2024 ''product'' (hd scenario_raw) ''marketing''"
  have r: "hd scenario_raw \<in> set (reporting_rows scenario_raw)"
    unfolding scenario_raw_rows by code_simp
  have p: "Product (hd scenario_raw) = Str ''WIDGET-A''"
    unfolding scenario_raw_rows by code_simp
  from T have "\<forall>r \<in> set (reporting_rows scenario_raw).
        \<forall>level \<in> {''total'', ''bu'', ''prod_fam'', ''product''}.
        \<forall>side \<in> {''stats_model'', ''marketing''}.
          spec_trend_row scenario_raw march_2024 level r side
            \<in> set (build_month_trend_rows scenario_raw march_2024)"
    by blast
  with r have m: "?t \<in> set (build_month_trend_rows scenario_raw march_2024)" by blast
  have a: "actuals_sum ?t = 120" unfolding scenario_raw_rows by code_simp
  have f: "forecast_sum ?t = 100" unfolding scenario_raw_rows by code_simp
  have v: "metric_value ?t = Some (6 / 5)" unfolding scenario_raw_rows by code_simp
  have q: "map (\<lambda>t. (view_level t, model_side t, actuals_sum t, forecast_sum t, metric_value t))
     (filter (\<lambda>t. units t = ''quantity'') (build_month_trend_rows scenario_raw march_2024))
   = [(''total'', ''stats_model'', 120, 0, None),
      (''total'', ''marketing'', 120, 100, Some (6 / 5)),
      (''bu'', ''stats_model'', 120, 0, None),
      (''bu'', ''marketing'', 120, 100, Some (6 / 5)),
      (''prod_fam'', ''stats_model'', 120, 0, None),
      (''prod_fam'', ''marketing'', 120, 100, Some (6 / 5)),
      (''product'', ''stats_model'', 120, 0, None),
      (''product'', ''marketing'', 120, 100, Some (6 / 5))]"
    unfolding scenario_raw_rows by code_simp
  from T have "\<forall>t \<in> set (build_month_trend_rows scenario_raw march_2024).
        metric_value t
          = (if forecast_sum t = 0 then None else Some (actuals_sum t / forecast_sum t))"
    by blast
  then have l: "list_all (\<lambda>t. metric_value t
        = (if forecast_sum t = 0 then None else Some (actuals_sum t / forecast_sum t)))
       (build_month_trend_rows scenario_raw march_2024)"
    unfolding list_all_iff .
  from r p m a f v q l show ?thesis by (intro conjI)
qed

subsection \<open>Ranking within units\<close>

lemma length_cumcount: "length (cumcount seen us) = length us"
  by (induction us arbitrary: seen) auto






subsection \<open>The wide views\<close>











subsection \<open>The top-N products of the trend report\<close>















subsection \<open>The swap of the actuals path\<close>

text \<open>
  Claim C10. After \<open>build_report_from_frames\<close> the global \<open>ACTUALS_FILE\<close> has the
  value it had before the call, for every behaviour of \<open>write_report\<close>, returning or
  raising, and even if it assigns the global itself; the outcome of \<open>write_report\<close>,
  which ran with the global set to the temporary actuals file, is the outcome of the
  call.
\<close>

theorem actuals_file_restored:
  "ACTUALS_FILE (snd (build_report_from_frames write_report m out td s)) = ACTUALS_FILE s
   \<and> (\<exists>cfg s_in. ACTUALS_FILE s_in = td @ ''/actuals.xlsx''
        \<and> fst (build_report_from_frames write_report m out td s) = fst (write_report cfg s_in)
        \<and> written (snd (build_report_from_frames write_report m out td s))
            = written (snd (write_report cfg s_in)))"
proof -
  let ?cfg = "\<lparr>report_month = m, marketing_file = td @ ''/marketing.xlsx'',
                     product_catalog_file = td @ ''/catalog.xlsx'',
                     stats_model_file = td @ ''/stats.xlsx'', output_file = out\<rparr>"
  let ?s_in = "s\<lparr>written := written s @ [td @ ''/marketing.xlsx'', td @ ''/catalog.xlsx'',
                        td @ ''/stats.xlsx'', td @ ''/actuals.xlsx''],
                ACTUALS_FILE := td @ ''/actuals.xlsx''\<rparr>"
  have e: "build_report_from_frames write_report m out td s
      = (fst (write_report ?cfg ?s_in),
         (snd (write_report ?cfg ?s_in))\<lparr>ACTUALS_FILE := ACTUALS_FILE s\<rparr>)"
    by (simp add: build_report_from_frames_def try_finally_def Let_def split: prod.splits)
  have "ACTUALS_FILE ?s_in = td @ ''/actuals.xlsx''" by simp
  then show ?thesis unfolding e by (intro conjI exI [of _ ?cfg] exI [of _ ?s_in]) simp_all
qed

theorem actuals_file_restored_witness:
  "build_report_from_frames write_report_ok march_2024 ''report.xlsx'' ''tmp'' start_state
     = (Inr (), \<lparr>ACTUALS_FILE = ''all_products_actuals_and_bookings.xlsx'',
                 written = [''tmp/marketing.xlsx'', ''tmp/catalog.xlsx'', ''tmp/stats.xlsx'',
                            ''tmp/actuals.xlsx'', ''report.xlsx'']\<rparr>)
   \<and> build_report_from_frames write_report_raises march_2024 ''report.xlsx'' ''tmp'' start_state
     = (Inl (Raised ''FileNotFoundError''),
        \<lparr>ACTUALS_FILE = ''all_products_actuals_and_bookings.xlsx'',
         written = [''tmp/marketing.xlsx'', ''tmp/catalog.xlsx'', ''tmp/stats.xlsx'',
                    ''tmp/actuals.xlsx'']\<rparr>)
   \<and> ACTUALS_FILE (snd (build_report_from_frames write_report_ok march_2024 ''report.xlsx''
          ''tmp'' start_state)) = ACTUALS_FILE start_state
   \<and> ACTUALS_FILE (snd (build_report_from_frames write_report_raises march_2024 ''report.xlsx''
          ''tmp'' start_state)) = ACTUALS_FILE start_state"
proof -
  have "build_report_from_frames write_report_ok march_2024 ''report.xlsx'' ''tmp'' start_state
     = (Inr (), \<lparr>ACTUALS_FILE = ''all_products_actuals_and_bookings.xlsx'',
                 written = [''tmp/marketing.xlsx'', ''tmp/catalog.xlsx'', ''tmp/stats.xlsx'',
                            ''tmp/actuals.xlsx'', ''report.xlsx'']\<rparr>)"
    by (simp add: build_report_from_frames_def try_finally_def write_report_ok_def
          start_state_def)
  moreover have "build_report_from_frames write_report_raises march_2024 ''report.xlsx'' ''tmp''
       start_state
     = (Inl (Raised ''FileNotFoundError''),
        \<lparr>ACTUALS_FILE = ''all_products_actuals_and_bookings.xlsx'',
         written = [''tmp/marketing.xlsx'', ''tmp/catalog.xlsx'', ''tmp/stats.xlsx'',
                    ''tmp/actuals.xlsx'']\<rparr>)"
    by (simp add: build_report_from_frames_def try_finally_def write_report_raises_def
          start_state_def)
  moreover note
    actuals_file_restored [of write_report_ok march_2024 "''report.xlsx''" "''tmp''" start_state,
      THEN conjunct1]
    actuals_file_restored [of write_report_raises march_2024 "''report.xlsx''" "''tmp''"
      start_state, THEN conjunct1]
  ultimately show ?thesis by (intro conjI)
qed

subsection \<open>The data-quality enforcement\<close>

text \<open>
  The monthly report: in mode \<^verbatim>\<open>fail\<close> with a failed critical check the run exits after
  writing the log of the checks only; \<open>write_report\<close> is not reached and no report or
  comparison file is written.
\<close>

lemma report_main_aborts_before_report:
  assumes "dq_mode args = ''fail''" and "critical_failed checks > 0"
  shows "report_main write_report args m checks td s
       = (Inl (SystemExit ''Critical DQ checks failed. Report generation aborted.''),
          s\<lparr>written := written s @ [dq_log_path args]\<rparr>)"
  using assms by (simp add: report_main_def)

lemma report_main_aborts_example:
  "report_main write_report_ok fail_mode_report march_2024 [failed_critical] ''tmp'' start_state
     = (Inl (SystemExit ''Critical DQ checks failed. Report generation aborted.''),
        \<lparr>ACTUALS_FILE = ''all_products_actuals_and_bookings.xlsx'',
         written = [''report_dq.json'']\<rparr>)"
  by (simp add: report_main_def fail_mode_report_def failed_critical_def critical_failed_def
        start_state_def)

text \<open>
  The trend report: whenever the enforcement mode is consulted the workbook has been
  written, so in
  mode \<^verbatim>\<open>fail\<close> with a failed critical check the run exits with the workbook on disk.
\<close>

lemma trend_main_writes_before_check:
  assumes "0 < window_months args" and "trend_frames \<noteq> []"
  shows "written (snd (trend_main args trend_frames checks s))
       = written s @ [t_dq_log args, t_output_path args]"
  using assms by (simp add: trend_main_def Let_def)


end
